theory Spec2Isabelle
  imports Complex_Main
begin

section \<open>JavaScript values, errors and the process environment\<close>

text \<open>
  The service of \<^verbatim>\<open>src/app.js\<close> receives JSON request bodies, so a value is JSON data or
  \<^verbatim>\<open>undefined\<close>. An object carries its own properties in insertion order; a JavaScript
  object has no duplicate keys. A JSON number is finite, and the program only ever tests it
  for truthiness, so it is a rational here (\<^verbatim>\<open>-0\<close> is \<^verbatim>\<open>0\<close>). Strings are byte strings
  (UTF-8): the program never indexes or measures a string, and the only characters it
  searches for (backslash, \<^verbatim>\<open>n\<close>) are ASCII.
\<close>

datatype jsval =
    JUndefined
  | JNull
  | JBool bool
  | JNum rat
  | JStr string
  | JArr "jsval list"
  | JObj "(string \<times> jsval) list"

text \<open>A thrown value: an \<^verbatim>\<open>Error\<close> instance, or the \<^verbatim>\<open>TypeError\<close> the engine raises.\<close>

datatype js_error = Error string | TypeError string

fun message :: "js_error \<Rightarrow> string" where
  "message (Error m) = m"
| "message (TypeError m) = m"

text \<open>
  The calendar fields of an instant in a time zone: a date of the Gregorian calendar in
  the common era and a time of day on the 24-hour clock.
\<close>

record civil_time =
  year :: nat
  month :: nat
  day :: nat
  hour :: nat
  minute :: nat
  second :: nat

text \<open>
  What the JavaScript runtime supplies and the repository does not define: the text of the
  \<^verbatim>\<open>TypeError\<close> raised when a property of \<^verbatim>\<open>undefined\<close> or \<^verbatim>\<open>null\<close> is read, and
  the calendar fields in the time zone \<^verbatim>\<open>Asia/Taipei\<close> of a time value in milliseconds
  (the engine's time zone database and calendar arithmetic).
\<close>

record runtime =
  nullish_message :: "jsval \<Rightarrow> string"
  local_time :: "int \<Rightarrow> civil_time"

text \<open>\<^verbatim>\<open>process.env\<close> after \<^verbatim>\<open>dotenv.config()\<close>: a name is unset or holds a string.\<close>

type_synonym environment = "string \<Rightarrow> string option"

text \<open>ToBoolean.\<close>

fun truthy :: "jsval \<Rightarrow> bool" where
  "truthy JUndefined = False"
| "truthy JNull = False"
| "truthy (JBool b) = b"
| "truthy (JNum r) = (r \<noteq> 0)"
| "truthy (JStr s) = (s \<noteq> [])"
| "truthy (JArr xs) = True"
| "truthy (JObj kvs) = True"

text \<open>\<^verbatim>\<open>!!process.env[key]\<close>: set and not the empty string.\<close>

definition env_truthy :: "environment \<Rightarrow> string \<Rightarrow> bool" where
  "env_truthy e key = (case e key of None \<Rightarrow> False | Some v \<Rightarrow> v \<noteq> [])"

text \<open>\<^verbatim>\<open>process.env.KEY || fallback\<close>, for a string fallback.\<close>

definition env_or :: "environment \<Rightarrow> string \<Rightarrow> string \<Rightarrow> string" where
  "env_or e key fallback = (case e key of None \<Rightarrow> fallback | Some v \<Rightarrow> if v = [] then fallback else v)"

fun nullish :: "jsval \<Rightarrow> bool" where
  "nullish JUndefined = True"
| "nullish JNull = True"
| "nullish v = False"

text \<open>
  \<^verbatim>\<open>value[key]\<close> on JSON data, for property names that are no built-in member (the program
  reads \<^verbatim>\<open>nickname\<close>, \<^verbatim>\<open>story\<close>, \<^verbatim>\<open>id\<close> and \<^verbatim>\<open>created_at\<close> only): reading from
  \<^verbatim>\<open>undefined\<close> or \<^verbatim>\<open>null\<close> throws, an object yields its own property or
  \<^verbatim>\<open>undefined\<close>, and an array or a primitive has no such property.
\<close>

fun get_prop :: "runtime \<Rightarrow> jsval \<Rightarrow> string \<Rightarrow> js_error + jsval" where
  "get_prop rt JUndefined key = Inl (TypeError (nullish_message rt JUndefined))"
| "get_prop rt JNull key = Inl (TypeError (nullish_message rt JNull))"
| "get_prop rt (JObj kvs) key = Inr (case map_of kvs key of None \<Rightarrow> JUndefined | Some v \<Rightarrow> v)"
| "get_prop rt v key = Inr JUndefined"

section \<open>Rendering the timestamp\<close>

text \<open>
  \<^verbatim>\<open>Date.now()\<close> is an integral number of milliseconds, and \<^verbatim>\<open>Number.prototype.toString\<close>
  renders an integer of that magnitude in plain decimal notation.
\<close>

definition digit_char :: "nat \<Rightarrow> char" where
  "digit_char d = char_of (48 + d)"

function string_of_nat :: "nat \<Rightarrow> string" where
  "string_of_nat n =
     (if n < 10 then [digit_char n] else string_of_nat (n div 10) @ [digit_char (n mod 10)])"
  by pat_completeness auto
termination
  by (relation "measure (\<lambda>n. n)") auto

declare string_of_nat.simps [simp del]

definition number_toString :: "int \<Rightarrow> string" where
  "number_toString i =
     (if i < 0 then CHR ''-'' # string_of_nat (nat (- i)) else string_of_nat (nat i))"

text \<open>Reading a decimal numeral back, to say what the rendered string denotes.\<close>

definition is_digit :: "char \<Rightarrow> bool" where
  "is_digit c = (48 \<le> (of_char c :: nat) \<and> (of_char c :: nat) \<le> 57)"

definition decimal_value :: "string \<Rightarrow> nat" where
  "decimal_value s = foldl (\<lambda>acc c. 10 * acc + (of_char c - 48)) 0 s"

text \<open>
  \<^verbatim>\<open>new Date().toLocaleString("zh-TW", { timeZone: "Asia/Taipei" })\<close>. With no component
  option the date is rendered with its year, month, day, hour, minute and second, laid out
  by the pattern of the locale: year, month and day separated by slashes, a space, the day
  period (the word for before noon or the word for after noon, here in UTF-8), and the
  hour on the 12-hour clock with minute and second in two digits, separated by colons.
\<close>

definition two_digits :: "nat \<Rightarrow> string" where
  "two_digits n = (if n < 10 then CHR ''0'' # string_of_nat n else string_of_nat n)"

definition day_period :: "nat \<Rightarrow> string" where
  "day_period h =
     (if h < 12 then [CHR 0xE4, CHR 0xB8, CHR 0x8A, CHR 0xE5, CHR 0x8D, CHR 0x88]
      else [CHR 0xE4, CHR 0xB8, CHR 0x8B, CHR 0xE5, CHR 0x8D, CHR 0x88])"

definition hour12 :: "nat \<Rightarrow> nat" where
  "hour12 h = (if h mod 12 = 0 then 12 else h mod 12)"

definition toLocaleString :: "runtime \<Rightarrow> int \<Rightarrow> string" where
  "toLocaleString rt t =
     (let c = local_time rt t
      in string_of_nat (year c) @ ''/'' @ string_of_nat (month c) @ ''/'' @
         string_of_nat (day c) @ '' '' @ day_period (hour c) @
         string_of_nat (hour12 (hour c)) @ '':'' @ two_digits (minute c) @ '':'' @
         two_digits (second c))"

section \<open>Configuration read at start-up\<close>

record process =
  env :: environment

definition placeholder_sheet_id :: string where
  "placeholder_sheet_id =
     [CHR 0xE8, CHR 0xAB, CHR 0x8B, CHR 0xE5, CHR 0xA1, CHR 0xAB, CHR 0xE5, CHR 0x85, CHR 0xA5,
      CHR 0xE4, CHR 0xBD, CHR 0xA0, CHR 0xE7, CHR 0x9A, CHR 0x84] @ ''SheetID''"

definition SHEET_ID :: "process \<Rightarrow> string" where
  "SHEET_ID p = env_or (env p) ''GOOGLE_SHEET_ID'' placeholder_sheet_id"

definition RESPONSE_SHEET_RANGE :: "process \<Rightarrow> string" where
  "RESPONSE_SHEET_RANGE p =
     env_or (env p) ''GOOGLE_SHEET_RANGE'' (CHR 0x27 # ''responses'' @ CHR 0x27 # ''!A:D'')"

definition RESPONSE_COLUMNS :: "string list" where
  "RESPONSE_COLUMNS = [''id'', ''created_at'', ''nickname'', ''story'']"

section \<open>Credentials\<close>

record credentials =
  type :: string
  project_id :: string
  private_key_id :: string
  private_key :: string
  client_email :: string
  client_id :: string

definition requiredKeys :: "string list" where
  "requiredKeys =
     [''GOOGLE_SA_TYPE'', ''GOOGLE_SA_PROJECT_ID'', ''GOOGLE_SA_PRIVATE_KEY_ID'',
      ''GOOGLE_SA_PRIVATE_KEY'', ''GOOGLE_SA_CLIENT_EMAIL'', ''GOOGLE_SA_CLIENT_ID'']"

text \<open>
  \<^verbatim>\<open>s.replace(/\\n/g, "\n")\<close>: scanning from the left, every backslash followed by
  \<^verbatim>\<open>n\<close> becomes one line feed; the scan resumes after the match.
\<close>

fun replace_backslash_n :: "string \<Rightarrow> string" where
  "replace_backslash_n [] = []"
| "replace_backslash_n [c] = [c]"
| "replace_backslash_n (c # d # cs) =
     (if c = CHR 0x5C \<and> d = CHR ''n'' then CHR 0x0A # replace_backslash_n cs
      else c # replace_backslash_n (d # cs))"

text \<open>The value of a variable that is known to be set.\<close>

definition env_get :: "environment \<Rightarrow> string \<Rightarrow> string" where
  "env_get e key = (case e key of None \<Rightarrow> [] | Some v \<Rightarrow> v)"

definition buildCredentialsFromEnv :: "environment \<Rightarrow> credentials option" where
  "buildCredentialsFromEnv e =
     (let hasAll = list_all (env_truthy e) requiredKeys in
      if \<not> hasAll then None
      else Some \<lparr>
        type = env_get e ''GOOGLE_SA_TYPE'',
        project_id = env_get e ''GOOGLE_SA_PROJECT_ID'',
        private_key_id = env_get e ''GOOGLE_SA_PRIVATE_KEY_ID'',
        private_key = replace_backslash_n (env_get e ''GOOGLE_SA_PRIVATE_KEY''),
        client_email = env_get e ''GOOGLE_SA_CLIENT_EMAIL'',
        client_id = env_get e ''GOOGLE_SA_CLIENT_ID'' \<rparr>)"

section \<open>The cached Sheets client\<close>

text \<open>
  The key file of the fallback: the path of \<^verbatim>\<open>GOOGLE_APPLICATION_CREDENTIALS\<close>, or
  \<^verbatim>\<open>service-account.json\<close> in the directory of the module.
\<close>

datatype key_file = PathFromEnv string | InModuleDir string

datatype auth_source = Credentials credentials | KeyFile key_file

record google_auth =
  source :: auth_source
  scopes :: "string list"

text \<open>
  A client object. \<open>instance\<close> is its identity: two constructions give two objects, also
  from equal options. Constructing \<^verbatim>\<open>GoogleAuth\<close> and the client reads no file and
  contacts no server, so it does not throw; a key file that is missing makes the later
  remote call fail.
\<close>

record sheets_client =
  "instance" :: nat
  version :: string
  auth :: google_auth

record append_request =
  spreadsheetId :: string
  range :: string
  valueInputOption :: string
  insertDataOption :: string
  "values" :: "jsval list list"

text \<open>What the process does to the outside: constructing a client, issuing an append.\<close>

datatype event = ClientConstructed sheets_client | AppendIssued sheets_client append_request

record server_state =
  cached :: "sheets_client option"
  trace :: "event list"

definition initial_state :: server_state where
  "initial_state = \<lparr>cached = None, trace = []\<rparr>"

fun constructions :: "event list \<Rightarrow> sheets_client list" where
  "constructions [] = []"
| "constructions (ClientConstructed c # es) = c # constructions es"
| "constructions (AppendIssued c r # es) = constructions es"

fun appends :: "event list \<Rightarrow> (sheets_client \<times> append_request) list" where
  "appends [] = []"
| "appends (ClientConstructed c # es) = appends es"
| "appends (AppendIssued c r # es) = (c, r) # appends es"

definition getSheetsClient :: "process \<Rightarrow> server_state \<Rightarrow> sheets_client \<times> server_state" where
  "getSheetsClient p s =
     (case cached s of
        Some c \<Rightarrow> (c, s)
      | None \<Rightarrow>
          (let credentials = buildCredentialsFromEnv (env p);
               auth = \<lparr>
                 source =
                   (case credentials of
                      Some c \<Rightarrow> Credentials c
                    | None \<Rightarrow>
                        KeyFile
                          (if env_truthy (env p) ''GOOGLE_APPLICATION_CREDENTIALS''
                           then PathFromEnv (env_get (env p) ''GOOGLE_APPLICATION_CREDENTIALS'')
                           else InModuleDir ''service-account.json'')),
                 scopes = [''https://www.googleapis.com/auth/spreadsheets''] \<rparr>;
               client = \<lparr>
                 instance = length (constructions (trace s)),
                 version = ''v4'',
                 auth = auth \<rparr>
           in (client, s\<lparr>cached := Some client, trace := trace s @ [ClientConstructed client]\<rparr>)))"

section \<open>Appending a row\<close>

text \<open>
  What one request meets outside the program: the two clock readings (\<^verbatim>\<open>Date.now()\<close>,
  then \<^verbatim>\<open>new Date()\<close>) and the outcome of the remote call, \<open>None\<close> when it resolves and
  the thrown error when it rejects.
\<close>

record request_io =
  date_now :: int
  new_date :: int
  remote :: "sheets_client \<Rightarrow> append_request \<Rightarrow> js_error option"

text \<open>\<^verbatim>\<open>columns.map((key) => ...)\<close>; the first throwing read ends the map.\<close>

fun build_row :: "runtime \<Rightarrow> string list \<Rightarrow> jsval \<Rightarrow> js_error + jsval list" where
  "build_row rt [] payload = Inr []"
| "build_row rt (key # keys) payload =
     (case get_prop rt payload key of
        Inl e \<Rightarrow> Inl e
      | Inr v \<Rightarrow>
          (case build_row rt keys payload of
             Inl e \<Rightarrow> Inl e
           | Inr cells \<Rightarrow> Inr ((if v = JUndefined \<or> v = JNull then JStr [] else v) # cells)))"

definition appendRow ::
  "process \<Rightarrow> runtime \<Rightarrow> request_io \<Rightarrow> string \<Rightarrow> string list \<Rightarrow> jsval \<Rightarrow> server_state
     \<Rightarrow> (js_error + unit) \<times> server_state" where
  "appendRow p rt io rng columns payload s =
     (let (sheets, s1) = getSheetsClient p s in
      case build_row rt columns payload of
        Inl e \<Rightarrow> (Inl e, s1)
      | Inr row \<Rightarrow>
          (let request = \<lparr>
                 spreadsheetId = SHEET_ID p,
                 range = rng,
                 valueInputOption = ''USER_ENTERED'',
                 insertDataOption = ''INSERT_ROWS'',
                 values = [row] \<rparr>;
               s2 = s1\<lparr>trace := trace s1 @ [AppendIssued sheets request]\<rparr>
           in case remote io sheets request of
                Some e \<Rightarrow> (Inl e, s2)
              | None \<Rightarrow> (Inr (), s2)))"

section \<open>The handler of POST /api/responses\<close>

record response =
  status :: nat
  body :: jsval

definition MSG_VALIDATION :: string where
  "MSG_VALIDATION =
     [CHR 0xE8, CHR 0xAB, CHR 0x8B, CHR 0xE5, CHR 0xA1, CHR 0xAB, CHR 0xE5, CHR 0xAF, CHR 0xAB,
      CHR 0xE6, CHR 0x9A, CHR 0xB1, CHR 0xE7, CHR 0xA8, CHR 0xB1, CHR 0xE8, CHR 0x88, CHR 0x87,
      CHR 0xE6, CHR 0x95, CHR 0x85, CHR 0xE4, CHR 0xBA, CHR 0x8B, CHR 0xE5, CHR 0x85, CHR 0xA7,
      CHR 0xE5, CHR 0xAE, CHR 0xB9]"

definition MSG_CREATED :: string where
  "MSG_CREATED =
     [CHR 0xE6, CHR 0x95, CHR 0x85, CHR 0xE4, CHR 0xBA, CHR 0x8B, CHR 0xE5, CHR 0xB7, CHR 0xB2,
      CHR 0xE6, CHR 0x88, CHR 0x90, CHR 0xE5, CHR 0x8A, CHR 0x9F, CHR 0xE9, CHR 0x80, CHR 0x81,
      CHR 0xE5, CHR 0x87, CHR 0xBA]"

definition MSG_SERVER_ERROR :: string where
  "MSG_SERVER_ERROR =
     [CHR 0xE4, CHR 0xBC, CHR 0xBA, CHR 0xE6, CHR 0x9C, CHR 0x8D, CHR 0xE5, CHR 0x99, CHR 0xA8,
      CHR 0xE9, CHR 0x8C, CHR 0xAF, CHR 0xE8, CHR 0xAA, CHR 0xA4, CHR 0xEF, CHR 0xBC, CHR 0x8C,
      CHR 0xE7, CHR 0x84, CHR 0xA1, CHR 0xE6, CHR 0xB3, CHR 0x95, CHR 0xE5, CHR 0x84, CHR 0xB2,
      CHR 0xE5, CHR 0xAD, CHR 0x98, CHR 0xE5, CHR 0x9B, CHR 0x9E, CHR 0xE6, CHR 0x87, CHR 0x89]"

text \<open>\<^verbatim>\<open>const { nickname, story } = req.body\<close>.\<close>

definition destructure :: "runtime \<Rightarrow> jsval \<Rightarrow> js_error + (jsval \<times> jsval)" where
  "destructure rt b =
     (case get_prop rt b ''nickname'' of
        Inl e \<Rightarrow> Inl e
      | Inr nickname \<Rightarrow>
          (case get_prop rt b ''story'' of
             Inl e \<Rightarrow> Inl e
           | Inr story \<Rightarrow> Inr (nickname, story)))"

definition newResponse :: "runtime \<Rightarrow> request_io \<Rightarrow> jsval \<Rightarrow> jsval \<Rightarrow> jsval" where
  "newResponse rt io nickname story =
     JObj [(''id'', JStr (number_toString (date_now io))),
           (''created_at'', JStr (toLocaleString rt (new_date io))),
           (''nickname'', nickname),
           (''story'', story)]"

text \<open>
  The body of the \<^verbatim>\<open>try\<close> block: a response, or the error that reaches \<^verbatim>\<open>catch\<close>.
  What the handler writes to the console is left out.
\<close>

definition try_block ::
  "process \<Rightarrow> runtime \<Rightarrow> request_io \<Rightarrow> jsval \<Rightarrow> server_state
     \<Rightarrow> (js_error + response) \<times> server_state" where
  "try_block p rt io b s =
     (case destructure rt b of
        Inl e \<Rightarrow> (Inl e, s)
      | Inr (nickname, story) \<Rightarrow>
          if \<not> truthy nickname \<or> \<not> truthy story
          then (Inr \<lparr>status = 400, body = JObj [(''message'', JStr MSG_VALIDATION)]\<rparr>, s)
          else
            (let record = newResponse rt io nickname story in
             case appendRow p rt io (RESPONSE_SHEET_RANGE p) RESPONSE_COLUMNS record s of
               (Inl e, s') \<Rightarrow> (Inl e, s')
             | (Inr u, s') \<Rightarrow>
                 (Inr \<lparr>status = 201,
                       body = JObj [(''message'', JStr MSG_CREATED), (''data'', record)]\<rparr>, s')))"

definition post_responses ::
  "process \<Rightarrow> runtime \<Rightarrow> request_io \<Rightarrow> jsval \<Rightarrow> server_state \<Rightarrow> response \<times> server_state" where
  "post_responses p rt io b s =
     (case try_block p rt io b s of
        (Inr res, s') \<Rightarrow> (res, s')
      | (Inl error, s') \<Rightarrow>
          (\<lparr>status = 500,
            body = JObj [(''message'', JStr MSG_SERVER_ERROR),
                         (''error'', JStr (message error))]\<rparr>, s'))"

text \<open>
  The process serves its requests one after the other as far as its own state goes: the
  part of the handler before \<^verbatim>\<open>await\<close> runs without interruption, and the part after it
  only sends the response.
\<close>

fun serve ::
  "process \<Rightarrow> runtime \<Rightarrow> (request_io \<times> jsval) list \<Rightarrow> server_state
     \<Rightarrow> response list \<times> server_state" where
  "serve p rt [] s = ([], s)"
| "serve p rt ((io, b) # reqs) s =
     (let (res, s1) = post_responses p rt io b s;
          (ress, s2) = serve p rt reqs s1
      in (res # ress, s2))"

section \<open>Notions used to state the properties\<close>

text \<open>
  The cell the specification asks for: the record's value under the column name, and the
  empty string when the value is missing or null.
\<close>

definition cell_of_record :: "(string \<times> jsval) list \<Rightarrow> string \<Rightarrow> jsval" where
  "cell_of_record kvs key =
     (case map_of kvs key of
        None \<Rightarrow> JStr []
      | Some v \<Rightarrow> if v = JUndefined \<or> v = JNull then JStr [] else v)"

text \<open>
  The code points of a UTF-8 byte string, for characters of one byte (ASCII) and of three
  bytes (the Chinese characters of the source's literals); other bytes are passed as they
  are.
\<close>

fun utf8_code_points :: "string \<Rightarrow> nat list" where
  "utf8_code_points [] = []"
| "utf8_code_points [a] = [of_char a]"
| "utf8_code_points [a, b] = [of_char a, of_char b]"
| "utf8_code_points (a # b # c # cs) =
     (if 224 \<le> (of_char a :: nat) \<and> (of_char a :: nat) < 240
      then ((of_char a - 224) * 4096 + (of_char b - 128) * 64 + (of_char c - 128))
             # utf8_code_points cs
      else of_char a # utf8_code_points (b # c # cs))"

text \<open>An occurrence of a backslash followed by \<^verbatim>\<open>n\<close> somewhere in a string.\<close>

fun has_backslash_n :: "string \<Rightarrow> bool" where
  "has_backslash_n [] = False"
| "has_backslash_n [c] = False"
| "has_backslash_n (c # d # cs) = ((c = CHR 0x5C \<and> d = CHR ''n'') \<or> has_backslash_n (d # cs))"

text \<open>
  The cache and the trace agree: no client was constructed while the cache is empty, and
  afterwards the cached client is the only one constructed and the one of every append.
\<close>

definition client_invariant :: "server_state \<Rightarrow> bool" where
  "client_invariant s =
     (case cached s of
        None \<Rightarrow> constructions (trace s) = [] \<and> appends (trace s) = []
      | Some c \<Rightarrow> constructions (trace s) = [c] \<and> list_all (\<lambda>cr. fst cr = c) (appends (trace s)))"

definition sheet_id_invariant :: "process \<Rightarrow> server_state \<Rightarrow> bool" where
  "sheet_id_invariant p s =
     list_all (\<lambda>cr. spreadsheetId (snd cr) = SHEET_ID p) (appends (trace s))"

section \<open>Scenarios\<close>

text \<open>
  Concrete inputs for the scenarios of the specification: a process with no variable set
  and one with the six credential variables, a runtime, and the outside of a request whose
  remote call succeeds or fails with \<^verbatim>\<open>Error("quota exceeded")\<close>.
\<close>

definition scenario_process :: process where
  "scenario_process = \<lparr>env = (\<lambda>key. None)\<rparr>"

definition scenario_env :: environment where
  "scenario_env =
     map_of [(''GOOGLE_SA_TYPE'', ''service_account''),
             (''GOOGLE_SA_PROJECT_ID'', ''storynest''),
             (''GOOGLE_SA_PRIVATE_KEY_ID'', ''k1''),
             (''GOOGLE_SA_PRIVATE_KEY'', ''BEGIN'' @ [CHR 0x5C, CHR ''n''] @ ''abc'' @ [CHR 0x5C, CHR ''n''] @ ''END''),
             (''GOOGLE_SA_CLIENT_EMAIL'', ''sa@storynest.example''),
             (''GOOGLE_SA_CLIENT_ID'', ''42''),
             (''GOOGLE_SHEET_ID'', ''sheet-1'')]"

text \<open>
  The calendar fields at eight hours ahead of UTC, the offset of \<^verbatim>\<open>Asia/Taipei\<close> since
  1980, for instants of the common era: days since the epoch are turned into a date of the
  Gregorian calendar through its 400-year cycles, counted from the first of March.
\<close>

definition utc8_local_time :: "int \<Rightarrow> civil_time" where
  "utc8_local_time t =
     (let local = t + 28800000;
          days = local div 86400000;
          ms = local mod 86400000;
          z = days + 719468;
          era = z div 146097;
          doe = z mod 146097;
          yoe = (doe - doe div 1460 + doe div 36524 - doe div 146096) div 365;
          doy = doe - (365 * yoe + yoe div 4 - yoe div 100);
          mp = (5 * doy + 2) div 153;
          d = doy - (153 * mp + 2) div 5 + 1;
          m = (if mp < 10 then mp + 3 else mp - 9);
          y = yoe + era * 400 + (if m \<le> 2 then 1 else 0)
      in \<lparr>year = nat y, month = nat m, day = nat d,
          hour = nat (ms div 3600000),
          minute = nat (ms div 60000 mod 60),
          second = nat (ms div 1000 mod 60)\<rparr>)"

definition scenario_runtime :: runtime where
  "scenario_runtime =
     \<lparr>nullish_message = (\<lambda>v. ''Cannot destructure property of req.body''),
      local_time = utc8_local_time\<rparr>"

definition scenario_io :: "js_error option \<Rightarrow> request_io" where
  "scenario_io outcome =
     \<lparr>date_now = 1700000000123, new_date = 1700000000123, remote = (\<lambda>c r. outcome)\<rparr>"

definition scenario_client :: sheets_client where
  "scenario_client =
     \<lparr>instance = 0, version = ''v4'',
      auth = \<lparr>source = KeyFile (InModuleDir ''service-account.json''),
               scopes = [''https://www.googleapis.com/auth/spreadsheets'']\<rparr>\<rparr>"

section \<open>Decimal rendering\<close>

lemma string_of_nat_nonempty: "string_of_nat n \<noteq> []"
  by (subst string_of_nat.simps) simp

lemma is_digit_digit_char: "d < 10 \<Longrightarrow> is_digit (digit_char d)"
  by (simp add: is_digit_def digit_char_def)

lemma of_char_digit_char: "d < 10 \<Longrightarrow> (of_char (digit_char d) :: nat) = 48 + d"
  by (simp add: digit_char_def)

lemma string_of_nat_digits: "list_all is_digit (string_of_nat n)"
proof (induction n rule: string_of_nat.induct)
  case (1 n)
  show ?case
  proof (cases "n < 10")
    case True
    then show ?thesis
      by (subst string_of_nat.simps) (simp add: is_digit_digit_char)
  next
    case False
    with "1" show ?thesis
      by (subst string_of_nat.simps) (simp add: is_digit_digit_char)
  qed
qed

lemma decimal_value_snoc: "decimal_value (s @ [c]) = 10 * decimal_value s + (of_char c - 48)"
  by (simp add: decimal_value_def)

lemma decimal_value_string_of_nat: "decimal_value (string_of_nat n) = n"
proof (induction n rule: string_of_nat.induct)
  case (1 n)
  show ?case
  proof (cases "n < 10")
    case True
    then show ?thesis
      by (subst string_of_nat.simps) (simp add: decimal_value_def of_char_digit_char)
  next
    case False
    with "1" show ?thesis
      by (subst string_of_nat.simps) (simp add: decimal_value_snoc of_char_digit_char)
  qed
qed

lemma number_toString_nonempty: "number_toString i \<noteq> []"
  by (simp add: number_toString_def string_of_nat_nonempty)

lemma digit_char_0_9:
  "digit_char 0 = CHR ''0''" "digit_char 1 = CHR ''1''" "digit_char 2 = CHR ''2''"
  "digit_char 3 = CHR ''3''" "digit_char 4 = CHR ''4''" "digit_char 5 = CHR ''5''"
  "digit_char 6 = CHR ''6''" "digit_char 7 = CHR ''7''" "digit_char 8 = CHR ''8''"
  "digit_char 9 = CHR ''9''" "digit_char (Suc 0) = CHR ''1''"
  by (simp_all add: digit_char_def char_of_def bit_Suc_0_iff)

lemma number_toString_scenario: "number_toString 1700000000123 = ''1700000000123''"
  by (simp add: number_toString_def string_of_nat.simps digit_char_0_9)

lemma number_toString_natural:
  assumes "0 \<le> i"
  shows "list_all is_digit (number_toString i) \<and> int (decimal_value (number_toString i)) = i"
  using assms by (simp add: number_toString_def string_of_nat_digits decimal_value_string_of_nat)

lemma toLocaleString_nonempty: "toLocaleString rt t \<noteq> []"
  by (simp add: toLocaleString_def Let_def)

lemma scenario_local_time:
  "utc8_local_time 1700000000123 =
     \<lparr>year = 2023, month = 11, day = 15, hour = 6, minute = 13, second = 20\<rparr>"
  unfolding utc8_local_time_def by (simp only: Let_def) simp

lemma scenario_created_at:
  "toLocaleString scenario_runtime 1700000000123 =
     ''2023/11/15 '' @ [CHR 0xE4, CHR 0xB8, CHR 0x8A, CHR 0xE5, CHR 0x8D, CHR 0x88] @ ''6:13:20''"
proof -
  have fields: "local_time scenario_runtime 1700000000123 =
     \<lparr>year = 2023, month = 11, day = 15, hour = 6, minute = 13, second = 20\<rparr>"
    by (simp add: scenario_runtime_def scenario_local_time)
  show ?thesis
    unfolding toLocaleString_def fields Let_def
    by (simp add: day_period_def hour12_def two_digits_def string_of_nat.simps digit_char_0_9)
qed

section \<open>Effects of the client factory, the appender and the handler\<close>

lemma constructions_append: "constructions (xs @ ys) = constructions xs @ constructions ys"
  by (induction xs rule: constructions.induct) simp_all

lemma appends_append: "appends (xs @ ys) = appends xs @ appends ys"
  by (induction xs rule: appends.induct) simp_all

lemma build_row_object: "build_row rt columns (JObj kvs) = Inr (map (cell_of_record kvs) columns)"
  by (induction columns) (simp_all add: cell_of_record_def split: option.splits)

lemma cell_of_record_reorder:
  assumes "distinct (map fst kvs)" and "distinct (map fst kvs')" and "set kvs' = set kvs"
  shows "cell_of_record kvs' = cell_of_record kvs"
proof -
  have "map_of kvs' = map_of kvs"
    using assms by (simp add: map_of_inject_set)
  then show ?thesis
    by (simp add: cell_of_record_def fun_eq_iff)
qed

lemma truthy_not_nullish: "truthy v \<Longrightarrow> v \<noteq> JUndefined \<and> v \<noteq> JNull"
  by (cases v) simp_all

lemma getSheetsClient_cached: "cached s = Some c \<Longrightarrow> getSheetsClient p s = (c, s)"
  by (simp add: getSheetsClient_def)

lemma getSheetsClient_caches: "cached (snd (getSheetsClient p s)) = Some (fst (getSheetsClient p s))"
  by (simp add: getSheetsClient_def Let_def split: option.splits)

lemma getSheetsClient_appends: "appends (trace (snd (getSheetsClient p s))) = appends (trace s)"
  by (simp add: getSheetsClient_def Let_def appends_append split: option.splits)

lemma getSheetsClient_constructions:
  "constructions (trace (snd (getSheetsClient p s))) =
     (case cached s of
        Some c \<Rightarrow> constructions (trace s)
      | None \<Rightarrow> constructions (trace s) @ [fst (getSheetsClient p s)])"
  by (simp add: getSheetsClient_def Let_def constructions_append split: option.splits)

lemma getSheetsClient_invariant:
  "client_invariant s \<Longrightarrow> client_invariant (snd (getSheetsClient p s))"
  by (auto simp: client_invariant_def getSheetsClient_def Let_def constructions_append
      appends_append split: option.splits)

lemma appendRow_object:
  "appendRow p rt io rng columns (JObj kvs) s =
     (let sheets = fst (getSheetsClient p s);
          s1 = snd (getSheetsClient p s);
          request = \<lparr>spreadsheetId = SHEET_ID p, range = rng,
            valueInputOption = ''USER_ENTERED'', insertDataOption = ''INSERT_ROWS'',
            values = [map (cell_of_record kvs) columns]\<rparr>
      in ((case remote io sheets request of Some e \<Rightarrow> Inl e | None \<Rightarrow> Inr ()),
          s1\<lparr>trace := trace s1 @ [AppendIssued sheets request]\<rparr>))"
  by (simp add: appendRow_def build_row_object Let_def split: prod.splits option.splits)

lemma appendRow_state:
  "snd (appendRow p rt io rng columns payload s) = snd (getSheetsClient p s) \<or>
   (\<exists>row. snd (appendRow p rt io rng columns payload s) =
      (snd (getSheetsClient p s))\<lparr>trace := trace (snd (getSheetsClient p s)) @
         [AppendIssued (fst (getSheetsClient p s))
            \<lparr>spreadsheetId = SHEET_ID p, range = rng,
              valueInputOption = ''USER_ENTERED'', insertDataOption = ''INSERT_ROWS'',
              values = [row]\<rparr>]\<rparr>)"
  by (auto simp: appendRow_def Let_def split: prod.splits option.splits sum.splits)

lemma appendRow_invariant:
  assumes "client_invariant s"
  shows "client_invariant (snd (appendRow p rt io rng columns payload s))"
proof -
  let ?s1 = "snd (getSheetsClient p s)"
  let ?c = "fst (getSheetsClient p s)"
  have inv1: "client_invariant ?s1"
    using assms by (rule getSheetsClient_invariant)
  have c1: "cached ?s1 = Some ?c"
    by (rule getSheetsClient_caches)
  from appendRow_state [of p rt io rng columns payload s]
  show ?thesis
  proof
    assume "snd (appendRow p rt io rng columns payload s) = ?s1"
    with inv1 show ?thesis by simp
  next
    assume "\<exists>row. snd (appendRow p rt io rng columns payload s) =
      ?s1\<lparr>trace := trace ?s1 @
         [AppendIssued ?c
            \<lparr>spreadsheetId = SHEET_ID p, range = rng,
              valueInputOption = ''USER_ENTERED'', insertDataOption = ''INSERT_ROWS'',
              values = [row]\<rparr>]\<rparr>"
    then obtain row where eq: "snd (appendRow p rt io rng columns payload s) =
      ?s1\<lparr>trace := trace ?s1 @
         [AppendIssued ?c
            \<lparr>spreadsheetId = SHEET_ID p, range = rng,
              valueInputOption = ''USER_ENTERED'', insertDataOption = ''INSERT_ROWS'',
              values = [row]\<rparr>]\<rparr>" ..
    from inv1 c1 show ?thesis
      unfolding eq by (simp add: client_invariant_def constructions_append appends_append)
  qed
qed

lemma appendRow_sheet_id:
  assumes "sheet_id_invariant p s"
  shows "sheet_id_invariant p (snd (appendRow p rt io rng columns payload s))"
proof -
  have s1: "sheet_id_invariant p (snd (getSheetsClient p s))"
    using assms by (simp add: sheet_id_invariant_def getSheetsClient_appends)
  from appendRow_state [of p rt io rng columns payload s] s1
  show ?thesis
    by (auto simp: sheet_id_invariant_def appends_append)
qed

lemma appendRow_cached:
  "cached s = Some c \<Longrightarrow> cached (snd (appendRow p rt io rng columns payload s)) = Some c"
  using appendRow_state [of p rt io rng columns payload s]
  by (auto simp: getSheetsClient_cached)

lemma try_block_nullish:
  "nullish b \<Longrightarrow> try_block p rt io b s = (Inl (TypeError (nullish_message rt b)), s)"
  by (cases b) (simp_all add: try_block_def destructure_def)

lemma try_block_invalid:
  assumes "get_prop rt b ''nickname'' = Inr nickname" and "get_prop rt b ''story'' = Inr story"
    and "\<not> truthy nickname \<or> \<not> truthy story"
  shows "try_block p rt io b s =
    (Inr \<lparr>status = 400, body = JObj [(''message'', JStr MSG_VALIDATION)]\<rparr>, s)"
  using assms by (auto simp: try_block_def destructure_def)

lemma try_block_valid:
  assumes "get_prop rt b ''nickname'' = Inr nickname" and "get_prop rt b ''story'' = Inr story"
    and "truthy nickname" and "truthy story"
  shows "try_block p rt io b s =
    (let sheets = fst (getSheetsClient p s);
         s1 = snd (getSheetsClient p s);
         request = \<lparr>spreadsheetId = SHEET_ID p, range = RESPONSE_SHEET_RANGE p,
           valueInputOption = ''USER_ENTERED'', insertDataOption = ''INSERT_ROWS'',
           values = [[JStr (number_toString (date_now io)),
                      JStr (toLocaleString rt (new_date io)), nickname, story]]\<rparr>;
         s2 = s1\<lparr>trace := trace s1 @ [AppendIssued sheets request]\<rparr>
     in case remote io sheets request of
          Some e \<Rightarrow> (Inl e, s2)
        | None \<Rightarrow>
            (Inr \<lparr>status = 201,
                  body = JObj [(''message'', JStr MSG_CREATED),
                               (''data'', newResponse rt io nickname story)]\<rparr>, s2))"
proof -
  have cells: "map (cell_of_record [(''id'', JStr (number_toString (date_now io))),
           (''created_at'', JStr (toLocaleString rt (new_date io))),
           (''nickname'', nickname), (''story'', story)]) RESPONSE_COLUMNS =
        [JStr (number_toString (date_now io)), JStr (toLocaleString rt (new_date io)),
         nickname, story]"
    using truthy_not_nullish [OF assms(3)] truthy_not_nullish [OF assms(4)]
    by (simp add: cell_of_record_def RESPONSE_COLUMNS_def)
  show ?thesis
    using assms
    by (simp add: try_block_def destructure_def newResponse_def appendRow_object cells Let_def
        split: option.splits)
qed

lemma post_responses_state:
  "snd (post_responses p rt io b s) = s \<or>
   (\<exists>payload. snd (post_responses p rt io b s) =
      snd (appendRow p rt io (RESPONSE_SHEET_RANGE p) RESPONSE_COLUMNS payload s))"
proof (cases "destructure rt b")
  case (Inl e)
  then have "snd (post_responses p rt io b s) = s"
    by (simp add: post_responses_def try_block_def)
  then show ?thesis ..
next
  case (Inr ns)
  obtain nickname story where ns: "ns = (nickname, story)" by (cases ns)
  show ?thesis
  proof (cases "truthy nickname \<and> truthy story")
    case False
    with Inr ns have "snd (post_responses p rt io b s) = s"
      by (auto simp: post_responses_def try_block_def)
    then show ?thesis ..
  next
    case True
    with Inr ns have "snd (post_responses p rt io b s) =
      snd (appendRow p rt io (RESPONSE_SHEET_RANGE p) RESPONSE_COLUMNS
             (newResponse rt io nickname story) s)"
      by (auto simp: post_responses_def try_block_def Let_def split: prod.splits sum.splits)
    then show ?thesis by blast
  qed
qed

lemma serve_Cons_state:
  "snd (serve p rt ((io, b) # reqs) s) = snd (serve p rt reqs (snd (post_responses p rt io b s)))"
  by (simp add: split_beta)

lemma post_responses_invariant:
  "client_invariant s \<Longrightarrow> client_invariant (snd (post_responses p rt io b s))"
  using post_responses_state [of p rt io b s] by (auto simp: appendRow_invariant)

lemma post_responses_sheet_id:
  "sheet_id_invariant p s \<Longrightarrow> sheet_id_invariant p (snd (post_responses p rt io b s))"
  using post_responses_state [of p rt io b s] by (auto simp: appendRow_sheet_id)

lemma post_responses_cached:
  "cached s = Some c \<Longrightarrow> cached (snd (post_responses p rt io b s)) = Some c"
  using post_responses_state [of p rt io b s] by (auto simp: appendRow_cached)

lemma serve_invariant:
  "client_invariant s \<Longrightarrow> client_invariant (snd (serve p rt reqs s))"
proof (induction reqs arbitrary: s)
  case Nil
  then show ?case by simp
next
  case (Cons r reqs)
  obtain io b where r: "r = (io, b)" by (cases r)
  have "client_invariant (snd (post_responses p rt io b s))"
    using Cons.prems by (rule post_responses_invariant)
  then have "client_invariant (snd (serve p rt reqs (snd (post_responses p rt io b s))))"
    by (rule Cons.IH)
  then show ?case
    by (simp only: r serve_Cons_state)
qed

lemma serve_sheet_id:
  "sheet_id_invariant p s \<Longrightarrow> sheet_id_invariant p (snd (serve p rt reqs s))"
proof (induction reqs arbitrary: s)
  case Nil
  then show ?case by simp
next
  case (Cons r reqs)
  obtain io b where r: "r = (io, b)" by (cases r)
  have "sheet_id_invariant p (snd (post_responses p rt io b s))"
    using Cons.prems by (rule post_responses_sheet_id)
  then have "sheet_id_invariant p (snd (serve p rt reqs (snd (post_responses p rt io b s))))"
    by (rule Cons.IH)
  then show ?case
    by (simp only: r serve_Cons_state)
qed

lemma serve_cached:
  "cached s = Some c \<Longrightarrow> cached (snd (serve p rt reqs s)) = Some c"
proof (induction reqs arbitrary: s)
  case Nil
  then show ?case by simp
next
  case (Cons r reqs)
  obtain io b where r: "r = (io, b)" by (cases r)
  have "cached (snd (post_responses p rt io b s)) = Some c"
    using Cons.prems by (rule post_responses_cached)
  then have "cached (snd (serve p rt reqs (snd (post_responses p rt io b s)))) = Some c"
    by (rule Cons.IH)
  then show ?case
    by (simp only: r serve_Cons_state)
qed

section \<open>Properties of the handler\<close>

text \<open>
  Claim C1. A request whose body is there and whose \<^verbatim>\<open>nickname\<close> or \<^verbatim>\<open>story\<close> is falsy
  (the empty string, absent, null, and also \<^verbatim>\<open>false\<close> or \<^verbatim>\<open>0\<close>) is answered with
  HTTP 400 and the validation message, and the state of the process is what it was: no
  client is constructed and no remote append is issued.
\<close>

theorem missing_field_is_400:
  assumes "get_prop rt b ''nickname'' = Inr nickname"
    and "get_prop rt b ''story'' = Inr story"
    and "\<not> truthy nickname \<or> \<not> truthy story"
  shows "post_responses p rt io b s =
           (\<lparr>status = 400, body = JObj [(''message'', JStr MSG_VALIDATION)]\<rparr>, s) \<and>
         appends (trace (snd (post_responses p rt io b s))) = appends (trace s)"
  using try_block_invalid [OF assms, of p io s] by (simp add: post_responses_def)

theorem missing_field_is_400_witness:
  "post_responses scenario_process scenario_runtime (scenario_io None)
      (JObj [(''nickname'', JStr ''''), (''story'', JStr ''Hello'')]) initial_state =
     (\<lparr>status = 400, body = JObj [(''message'', JStr MSG_VALIDATION)]\<rparr>, initial_state) \<and>
   post_responses scenario_process scenario_runtime (scenario_io None) (JObj []) initial_state =
     (\<lparr>status = 400, body = JObj [(''message'', JStr MSG_VALIDATION)]\<rparr>, initial_state) \<and>
   post_responses scenario_process scenario_runtime (scenario_io None)
      (JObj [(''nickname'', JStr ''Amy''), (''story'', JNull)]) initial_state =
     (\<lparr>status = 400, body = JObj [(''message'', JStr MSG_VALIDATION)]\<rparr>, initial_state)"
  using
    missing_field_is_400 [of scenario_runtime
      "JObj [(''nickname'', JStr ''''), (''story'', JStr ''Hello'')]" "JStr ''''" "JStr ''Hello''"
      scenario_process "scenario_io None" initial_state]
    missing_field_is_400 [of scenario_runtime "JObj []" JUndefined JUndefined
      scenario_process "scenario_io None" initial_state]
    missing_field_is_400 [of scenario_runtime
      "JObj [(''nickname'', JStr ''Amy''), (''story'', JNull)]" "JStr ''Amy''" JNull
      scenario_process "scenario_io None" initial_state]
  by simp

text \<open>
  Claim C8. When \<^verbatim>\<open>req.body\<close> is \<^verbatim>\<open>undefined\<close> or \<^verbatim>\<open>null\<close>, the destructuring
  throws inside the \<^verbatim>\<open>try\<close> block and the handler answers HTTP 500 with the text of that
  \<^verbatim>\<open>TypeError\<close>, not HTTP 400; nothing is sent to the remote API.
\<close>

theorem absent_body_is_500:
  assumes "nullish b"
  shows "post_responses p rt io b s =
           (\<lparr>status = 500,
             body = JObj [(''message'', JStr MSG_SERVER_ERROR),
                          (''error'', JStr (nullish_message rt b))]\<rparr>, s) \<and>
         status (fst (post_responses p rt io b s)) \<noteq> 400"
  using try_block_nullish [OF assms, of p rt io s] by (simp add: post_responses_def)

theorem absent_body_is_500_witness:
  "status (fst (post_responses scenario_process scenario_runtime (scenario_io None)
      JUndefined initial_state)) = 500 \<and>
   status (fst (post_responses scenario_process scenario_runtime (scenario_io None)
      JNull initial_state)) = 500"
  using absent_body_is_500 [of JUndefined scenario_process scenario_runtime "scenario_io None"
      initial_state]
    absent_body_is_500 [of JNull scenario_process scenario_runtime "scenario_io None"
      initial_state]
  by simp

text \<open>
  Claim C4. When \<^verbatim>\<open>nickname\<close> and \<^verbatim>\<open>story\<close> pass the validation and the remote append
  call throws an error, the handler answers HTTP 500 and the \<^verbatim>\<open>error\<close> field of the body
  is the message of that error; \<^verbatim>\<open>Error("quota exceeded")\<close> gives \<^verbatim>\<open>"quota exceeded"\<close>.
\<close>

theorem remote_failure_is_500:
  assumes "get_prop rt b ''nickname'' = Inr nickname"
    and "get_prop rt b ''story'' = Inr story"
    and "truthy nickname" and "truthy story"
    and "remote io (fst (getSheetsClient p s))
           \<lparr>spreadsheetId = SHEET_ID p, range = RESPONSE_SHEET_RANGE p,
             valueInputOption = ''USER_ENTERED'', insertDataOption = ''INSERT_ROWS'',
             values = [[JStr (number_toString (date_now io)),
                        JStr (toLocaleString rt (new_date io)), nickname, story]]\<rparr> = Some e"
  shows "fst (post_responses p rt io b s) =
           \<lparr>status = 500,
            body = JObj [(''message'', JStr MSG_SERVER_ERROR), (''error'', JStr (message e))]\<rparr>"
  using try_block_valid [OF assms(1-4), of p io s] assms(5)
  by (simp add: post_responses_def Let_def)

theorem remote_failure_is_500_witness:
  "fst (post_responses scenario_process scenario_runtime
      (scenario_io (Some (Error ''quota exceeded'')))
      (JObj [(''nickname'', JStr ''Amy''), (''story'', JStr ''Hello'')]) initial_state) =
     \<lparr>status = 500,
      body = JObj [(''message'', JStr MSG_SERVER_ERROR), (''error'', JStr ''quota exceeded'')]\<rparr>"
  using remote_failure_is_500 [of scenario_runtime
      "JObj [(''nickname'', JStr ''Amy''), (''story'', JStr ''Hello'')]" "JStr ''Amy''"
      "JStr ''Hello''" "scenario_io (Some (Error ''quota exceeded''))" scenario_process
      initial_state "Error ''quota exceeded''"]
  by (simp add: scenario_io_def)

text \<open>
  Claim C2. When \<^verbatim>\<open>nickname\<close> and \<^verbatim>\<open>story\<close> are non-empty strings and the remote
  append call succeeds, the handler answers HTTP 201 with the record it built: the
  request's \<^verbatim>\<open>nickname\<close> and \<^verbatim>\<open>story\<close> as they came, \<^verbatim>\<open>id\<close> the reading of
  \<^verbatim>\<open>Date.now()\<close> in decimal notation and \<^verbatim>\<open>created_at\<close> the locale rendering of the
  date. That same record is the one handed to \<^verbatim>\<open>appendRow\<close>, and its four values are
  the row sent. \<^verbatim>\<open>id\<close> is never empty, and for a clock at or after the epoch it consists
  of digits that denote the timestamp; \<^verbatim>\<open>created_at\<close> is never empty either, whatever
  calendar fields the runtime finds for the instant.
\<close>

theorem valid_request_is_201:
  fixes p :: process and rt :: runtime and io :: request_io and s :: server_state
    and nickname story :: string
  defines "row_id \<equiv> number_toString (date_now io)"
    and "row_created_at \<equiv> toLocaleString rt (new_date io)"
  defines "row_record \<equiv> JObj [(''id'', JStr row_id), (''created_at'', JStr row_created_at),
                            (''nickname'', JStr nickname), (''story'', JStr story)]"
    and "request \<equiv> \<lparr>spreadsheetId = SHEET_ID p, range = RESPONSE_SHEET_RANGE p,
           valueInputOption = ''USER_ENTERED'', insertDataOption = ''INSERT_ROWS'',
           values = [[JStr row_id, JStr row_created_at, JStr nickname, JStr story]]\<rparr>"
  assumes "get_prop rt b ''nickname'' = Inr (JStr nickname)"
    and "get_prop rt b ''story'' = Inr (JStr story)"
    and "nickname \<noteq> []" and "story \<noteq> []"
    and "remote io (fst (getSheetsClient p s)) request = None"
  shows "post_responses p rt io b s =
           (\<lparr>status = 201, body = JObj [(''message'', JStr MSG_CREATED), (''data'', row_record)]\<rparr>,
            snd (appendRow p rt io (RESPONSE_SHEET_RANGE p) RESPONSE_COLUMNS row_record s)) \<and>
         appends (trace (snd (post_responses p rt io b s))) =
           appends (trace s) @ [(fst (getSheetsClient p s), request)] \<and>
         row_id \<noteq> [] \<and> row_created_at \<noteq> [] \<and>
         (0 \<le> date_now io \<longrightarrow>
            list_all is_digit row_id \<and> int (decimal_value row_id) = date_now io)"
proof -
  have valid: "truthy (JStr nickname)" "truthy (JStr story)"
    using assms(7,8) by simp_all
  have cells: "map (cell_of_record [(''id'', JStr row_id), (''created_at'', JStr row_created_at),
                 (''nickname'', JStr nickname), (''story'', JStr story)]) RESPONSE_COLUMNS =
               [JStr row_id, JStr row_created_at, JStr nickname, JStr story]"
    by (simp add: cell_of_record_def RESPONSE_COLUMNS_def)
  have row: "snd (appendRow p rt io (RESPONSE_SHEET_RANGE p) RESPONSE_COLUMNS row_record s) =
      (snd (getSheetsClient p s))\<lparr>trace := trace (snd (getSheetsClient p s)) @
         [AppendIssued (fst (getSheetsClient p s)) request]\<rparr>"
    unfolding row_record_def request_def appendRow_object cells by (simp add: Let_def)
  have post: "post_responses p rt io b s =
      (\<lparr>status = 201, body = JObj [(''message'', JStr MSG_CREATED), (''data'', row_record)]\<rparr>,
       (snd (getSheetsClient p s))\<lparr>trace := trace (snd (getSheetsClient p s)) @
         [AppendIssued (fst (getSheetsClient p s)) request]\<rparr>)"
    using try_block_valid [OF assms(5,6) valid, of p io s] assms(9)
    by (simp add: post_responses_def Let_def request_def row_record_def row_id_def row_created_at_def
        newResponse_def)
  have tr: "appends (trace (snd (post_responses p rt io b s))) =
      appends (trace s) @ [(fst (getSheetsClient p s), request)]"
    unfolding post by (simp add: appends_append getSheetsClient_appends)
  have digits: "0 \<le> date_now io \<longrightarrow>
      list_all is_digit row_id \<and> int (decimal_value row_id) = date_now io"
    unfolding row_id_def using number_toString_natural [of "date_now io"] by blast
  have "row_id \<noteq> []"
    unfolding row_id_def by (rule number_toString_nonempty)
  moreover have "row_created_at \<noteq> []"
    unfolding row_created_at_def by (rule toLocaleString_nonempty)
  ultimately show ?thesis
    using post row tr digits by simp
qed

theorem valid_request_is_201_witness:
  "post_responses scenario_process scenario_runtime (scenario_io None)
      (JObj [(''nickname'', JStr ''Amy''), (''story'', JStr ''Hello'')]) initial_state =
     (\<lparr>status = 201,
       body = JObj [(''message'', JStr MSG_CREATED),
         (''data'', JObj [(''id'', JStr ''1700000000123''),
                          (''created_at'',
                           JStr (''2023/11/15 '' @
                             [CHR 0xE4, CHR 0xB8, CHR 0x8A, CHR 0xE5, CHR 0x8D, CHR 0x88] @
                             ''6:13:20'')),
                          (''nickname'', JStr ''Amy''), (''story'', JStr ''Hello'')])]\<rparr>,
      snd (appendRow scenario_process scenario_runtime (scenario_io None)
             (RESPONSE_SHEET_RANGE scenario_process) RESPONSE_COLUMNS
             (JObj [(''id'', JStr ''1700000000123''),
                    (''created_at'',
                     JStr (''2023/11/15 '' @
                       [CHR 0xE4, CHR 0xB8, CHR 0x8A, CHR 0xE5, CHR 0x8D, CHR 0x88] @
                       ''6:13:20'')),
                    (''nickname'', JStr ''Amy''), (''story'', JStr ''Hello'')]) initial_state)) \<and>
   list_all is_digit ''1700000000123'' \<and> decimal_value ''1700000000123'' = 1700000000123"
proof -
  have now: "date_now (scenario_io None) = 1700000000123"
    and date: "new_date (scenario_io None) = 1700000000123"
    and ok: "remote (scenario_io None) c r = None" for c r
    by (simp_all add: scenario_io_def)
  from valid_request_is_201 [of scenario_runtime
      "JObj [(''nickname'', JStr ''Amy''), (''story'', JStr ''Hello'')]" "''Amy''" "''Hello''"
      "scenario_io None" scenario_process initial_state]
  show ?thesis
    by (simp add: now date ok number_toString_scenario scenario_created_at)
qed

section \<open>Properties of the row appender\<close>

text \<open>
  Claim C7. A call of \<^verbatim>\<open>appendRow\<close> on a record issues exactly one remote append: the
  appends of the trace grow by one request, made with the client of the factory, with
  \<^verbatim>\<open>valueInputOption\<close> \<^verbatim>\<open>USER_ENTERED\<close>, \<^verbatim>\<open>insertDataOption\<close> \<^verbatim>\<open>INSERT_ROWS\<close> and a single
  row of values. The call returns what that one remote call returned or threw: nothing is
  retried and nothing is batched.
\<close>

theorem appendRow_issues_one_append:
  fixes p :: process and io :: request_io and s :: server_state
  defines "request rng columns kvs \<equiv>
      \<lparr>spreadsheetId = SHEET_ID p, range = rng,
        valueInputOption = ''USER_ENTERED'', insertDataOption = ''INSERT_ROWS'',
        values = [map (cell_of_record kvs) columns]\<rparr>"
  shows "appends (trace (snd (appendRow p rt io rng columns (JObj kvs) s))) =
           appends (trace s) @ [(fst (getSheetsClient p s), request rng columns kvs)] \<and>
         length (values (request rng columns kvs)) = 1 \<and>
         fst (appendRow p rt io rng columns (JObj kvs) s) =
           (case remote io (fst (getSheetsClient p s)) (request rng columns kvs) of
              Some e \<Rightarrow> Inl e
            | None \<Rightarrow> Inr ())"
  by (simp add: request_def appendRow_object Let_def appends_append getSheetsClient_appends)

theorem appendRow_issues_one_append_witness:
  "length (appends (trace (snd (appendRow scenario_process scenario_runtime
      (scenario_io (Some (Error ''quota exceeded''))) ''A:D'' RESPONSE_COLUMNS
      (JObj [(''id'', JStr ''17'')]) initial_state)))) = 1 \<and>
   fst (appendRow scenario_process scenario_runtime
      (scenario_io (Some (Error ''quota exceeded''))) ''A:D'' RESPONSE_COLUMNS
      (JObj [(''id'', JStr ''17'')]) initial_state) = Inl (Error ''quota exceeded'')"
  using appendRow_issues_one_append [of scenario_process scenario_runtime
      "scenario_io (Some (Error ''quota exceeded''))" "''A:D''" RESPONSE_COLUMNS
      "[(''id'', JStr ''17'')]" initial_state]
  by (simp add: scenario_io_def initial_state_def)

text \<open>
  Claim C3. With the columns of \<^verbatim>\<open>RESPONSE_COLUMNS\<close>, the row sent is the cells of
  \<^verbatim>\<open>id\<close>, \<^verbatim>\<open>created_at\<close>, \<^verbatim>\<open>nickname\<close> and \<^verbatim>\<open>story\<close> in this order, each the record's
  value under that name or the empty string when the value is missing, undefined or null.
  The order of the record's keys does not matter: two records with the same entries make
  \<^verbatim>\<open>appendRow\<close> do the same.
\<close>

theorem row_follows_RESPONSE_COLUMNS:
  "map (\<lambda>cr. values (snd cr))
       (appends (trace (snd (appendRow p rt io rng RESPONSE_COLUMNS (JObj kvs) s)))) =
     map (\<lambda>cr. values (snd cr)) (appends (trace s)) @
       [[[cell_of_record kvs ''id'', cell_of_record kvs ''created_at'',
          cell_of_record kvs ''nickname'', cell_of_record kvs ''story'']]] \<and>
   (distinct (map fst kvs) \<and> distinct (map fst kvs') \<and> set kvs' = set kvs \<longrightarrow>
      appendRow p rt io rng RESPONSE_COLUMNS (JObj kvs') s =
      appendRow p rt io rng RESPONSE_COLUMNS (JObj kvs) s)"
proof
  show "map (\<lambda>cr. values (snd cr))
       (appends (trace (snd (appendRow p rt io rng RESPONSE_COLUMNS (JObj kvs) s)))) =
     map (\<lambda>cr. values (snd cr)) (appends (trace s)) @
       [[[cell_of_record kvs ''id'', cell_of_record kvs ''created_at'',
          cell_of_record kvs ''nickname'', cell_of_record kvs ''story'']]]"
    by (simp add: appendRow_object Let_def appends_append getSheetsClient_appends
        RESPONSE_COLUMNS_def)
  show "distinct (map fst kvs) \<and> distinct (map fst kvs') \<and> set kvs' = set kvs \<longrightarrow>
      appendRow p rt io rng RESPONSE_COLUMNS (JObj kvs') s =
      appendRow p rt io rng RESPONSE_COLUMNS (JObj kvs) s"
  proof
    assume "distinct (map fst kvs) \<and> distinct (map fst kvs') \<and> set kvs' = set kvs"
    then have "cell_of_record kvs' = cell_of_record kvs"
      by (simp add: cell_of_record_reorder)
    then show "appendRow p rt io rng RESPONSE_COLUMNS (JObj kvs') s =
      appendRow p rt io rng RESPONSE_COLUMNS (JObj kvs) s"
      by (simp add: appendRow_object)
  qed
qed

theorem row_follows_RESPONSE_COLUMNS_witness:
  "map (\<lambda>cr. values (snd cr))
       (appends (trace (snd (appendRow scenario_process scenario_runtime (scenario_io None)
          ''A:D'' RESPONSE_COLUMNS
          (JObj [(''story'', JStr ''Hello''), (''extra'', JBool True), (''nickname'', JNull),
                 (''id'', JStr ''17'')]) initial_state)))) =
     [[[JStr ''17'', JStr '''', JStr '''', JStr ''Hello'']]] \<and>
   appendRow scenario_process scenario_runtime (scenario_io None) ''A:D'' RESPONSE_COLUMNS
     (JObj [(''id'', JStr ''17''), (''nickname'', JNull), (''extra'', JBool True),
            (''story'', JStr ''Hello'')]) initial_state =
   appendRow scenario_process scenario_runtime (scenario_io None) ''A:D'' RESPONSE_COLUMNS
     (JObj [(''story'', JStr ''Hello''), (''extra'', JBool True), (''nickname'', JNull),
            (''id'', JStr ''17'')]) initial_state"
  using row_follows_RESPONSE_COLUMNS [of scenario_process scenario_runtime "scenario_io None"
      "''A:D''"
      "[(''story'', JStr ''Hello''), (''extra'', JBool True), (''nickname'', JNull),
        (''id'', JStr ''17'')]"
      initial_state
      "[(''id'', JStr ''17''), (''nickname'', JNull), (''extra'', JBool True),
        (''story'', JStr ''Hello'')]"]
  by (simp add: cell_of_record_def initial_state_def insert_commute)

section \<open>Properties of the credential resolver\<close>

lemma replace_backslash_n_match:
  "replace_backslash_n (xs @ CHR 0x5C # CHR ''n'' # ys) =
     replace_backslash_n xs @ CHR 0x0A # replace_backslash_n ys"
  by (induction xs rule: replace_backslash_n.induct) simp_all

lemma replace_backslash_n_head:
  "replace_backslash_n (d # cs) = x # r \<Longrightarrow> x = CHR ''n'' \<Longrightarrow> d = CHR ''n''"
  by (cases cs) (auto split: if_splits)

lemma replace_backslash_n_nonempty: "s \<noteq> [] \<Longrightarrow> replace_backslash_n s \<noteq> []"
  by (induction s rule: replace_backslash_n.induct) simp_all

lemma has_backslash_n_Cons:
  "x \<noteq> CHR 0x5C \<Longrightarrow> has_backslash_n (x # r) = has_backslash_n r"
  by (cases r) simp_all

lemma replace_backslash_n_clean: "\<not> has_backslash_n (replace_backslash_n s)"
proof (induction s rule: replace_backslash_n.induct)
  case 1
  show ?case by simp
next
  case (2 c)
  show ?case by simp
next
  case (3 c d cs)
  show ?case
  proof (cases "c = CHR 0x5C \<and> d = CHR ''n''")
    case True
    with "3.IH"(1) show ?thesis
      by (simp add: has_backslash_n_Cons)
  next
    case False
    have ne: "replace_backslash_n (d # cs) \<noteq> []"
      by (rule replace_backslash_n_nonempty) simp
    then obtain x r where xr: "replace_backslash_n (d # cs) = x # r"
      by (cases "replace_backslash_n (d # cs)") auto
    have rest: "\<not> has_backslash_n (x # r)"
      using "3.IH"(2) False xr by simp
    have pair: "\<not> (c = CHR 0x5C \<and> x = CHR ''n'')"
      using False replace_backslash_n_head [OF xr] by blast
    have rep: "replace_backslash_n (c # d # cs) = c # x # r"
      using False xr by auto
    show ?thesis
      unfolding rep using rest pair by simp
  qed
qed

lemma replace_backslash_n_unchanged: "\<not> has_backslash_n s \<Longrightarrow> replace_backslash_n s = s"
  by (induction s rule: replace_backslash_n.induct) auto

lemma has_backslash_n_iff:
  "has_backslash_n s = (\<exists>us vs. s = us @ CHR 0x5C # CHR ''n'' # vs)"
proof (induction s rule: has_backslash_n.induct)
  case 1
  show ?case by simp
next
  case (2 c)
  show ?case by simp
next
  case (3 c d cs)
  show ?case
  proof
    assume "has_backslash_n (c # d # cs)"
    then consider "c = CHR 0x5C \<and> d = CHR ''n''" | "has_backslash_n (d # cs)"
      by auto
    then show "\<exists>us vs. c # d # cs = us @ CHR 0x5C # CHR ''n'' # vs"
    proof cases
      case 1
      then have "c # d # cs = [] @ CHR 0x5C # CHR ''n'' # cs" by simp
      then show ?thesis by blast
    next
      case 2
      with "3.IH" obtain us vs where "d # cs = us @ CHR 0x5C # CHR ''n'' # vs" by blast
      then have "c # d # cs = (c # us) @ CHR 0x5C # CHR ''n'' # vs" by simp
      then show ?thesis by blast
    qed
  next
    assume "\<exists>us vs. c # d # cs = us @ CHR 0x5C # CHR ''n'' # vs"
    then obtain us vs where eq: "c # d # cs = us @ CHR 0x5C # CHR ''n'' # vs" by blast
    show "has_backslash_n (c # d # cs)"
    proof (cases us)
      case Nil
      with eq show ?thesis by simp
    next
      case (Cons u us')
      with eq have "d # cs = us' @ CHR 0x5C # CHR ''n'' # vs" by simp
      with "3.IH" have "has_backslash_n (d # cs)" by blast
      then show ?thesis by simp
    qed
  qed
qed

lemma env_truthy_iff: "env_truthy e key = (\<exists>v. e key = Some v \<and> v \<noteq> [])"
  by (simp add: env_truthy_def split: option.splits)

lemma env_get_Some: "e key = Some v \<Longrightarrow> env_get e key = v"
  by (simp add: env_get_def)

lemma buildCredentialsFromEnv_fields:
  assumes "buildCredentialsFromEnv e = Some c"
  shows "e ''GOOGLE_SA_TYPE'' = Some (type c)"
    and "e ''GOOGLE_SA_PROJECT_ID'' = Some (project_id c)"
    and "e ''GOOGLE_SA_PRIVATE_KEY_ID'' = Some (private_key_id c)"
    and "\<exists>raw. e ''GOOGLE_SA_PRIVATE_KEY'' = Some raw \<and> private_key c = replace_backslash_n raw"
    and "e ''GOOGLE_SA_CLIENT_EMAIL'' = Some (client_email c)"
    and "e ''GOOGLE_SA_CLIENT_ID'' = Some (client_id c)"
  using assms
  by (auto simp: buildCredentialsFromEnv_def Let_def requiredKeys_def env_truthy_iff env_get_def
      split: if_splits)

lemma buildCredentialsFromEnv_reads_six:
  assumes "list_all (\<lambda>key. e' key = e key) requiredKeys"
  shows "buildCredentialsFromEnv e' = buildCredentialsFromEnv e"
  using assms
  by (simp add: buildCredentialsFromEnv_def requiredKeys_def env_truthy_def env_get_def Let_def)

lemma getSheetsClient_first:
  assumes "cached s = None"
  shows "snd (getSheetsClient p s) =
    s\<lparr>cached := Some (fst (getSheetsClient p s)),
      trace := trace s @ [ClientConstructed (fst (getSheetsClient p s))]\<rparr>"
  using assms by (simp add: getSheetsClient_def Let_def)

text \<open>
  Claim C5. \<^verbatim>\<open>buildCredentialsFromEnv\<close> returns a descriptor exactly when each of
  \<^verbatim>\<open>GOOGLE_SA_TYPE\<close>, \<^verbatim>\<open>GOOGLE_SA_PROJECT_ID\<close>, \<^verbatim>\<open>GOOGLE_SA_PRIVATE_KEY_ID\<close>,
  \<^verbatim>\<open>GOOGLE_SA_PRIVATE_KEY\<close>, \<^verbatim>\<open>GOOGLE_SA_CLIENT_EMAIL\<close> and \<^verbatim>\<open>GOOGLE_SA_CLIENT_ID\<close> is
  set to a non-empty string, and null otherwise. A returned descriptor is populated from
  the configuration: each of its six fields holds the value of its variable (the private
  key with its line feeds restored), and none is empty. The function only reads: its
  result is the same for two environments that agree on the six variables, and the first
  call of the client factory, within which it runs, changes the state of the process by
  the cached client and the record of its construction and by nothing else.
\<close>

theorem credentials_iff_all_six:
  "(buildCredentialsFromEnv e \<noteq> None) =
     list_all (\<lambda>key. \<exists>v. e key = Some v \<and> v \<noteq> [])
       [''GOOGLE_SA_TYPE'', ''GOOGLE_SA_PROJECT_ID'', ''GOOGLE_SA_PRIVATE_KEY_ID'',
        ''GOOGLE_SA_PRIVATE_KEY'', ''GOOGLE_SA_CLIENT_EMAIL'', ''GOOGLE_SA_CLIENT_ID''] \<and>
   (\<forall>c. buildCredentialsFromEnv e = Some c \<longrightarrow>
      e ''GOOGLE_SA_TYPE'' = Some (type c) \<and>
      e ''GOOGLE_SA_PROJECT_ID'' = Some (project_id c) \<and>
      e ''GOOGLE_SA_PRIVATE_KEY_ID'' = Some (private_key_id c) \<and>
      (\<exists>raw. e ''GOOGLE_SA_PRIVATE_KEY'' = Some raw \<and>
             private_key c = replace_backslash_n raw) \<and>
      e ''GOOGLE_SA_CLIENT_EMAIL'' = Some (client_email c) \<and>
      e ''GOOGLE_SA_CLIENT_ID'' = Some (client_id c) \<and>
      type c \<noteq> [] \<and> project_id c \<noteq> [] \<and> private_key_id c \<noteq> [] \<and>
      private_key c \<noteq> [] \<and> client_email c \<noteq> [] \<and> client_id c \<noteq> []) \<and>
   (\<forall>e'. list_all (\<lambda>key. e' key = e key)
           [''GOOGLE_SA_TYPE'', ''GOOGLE_SA_PROJECT_ID'', ''GOOGLE_SA_PRIVATE_KEY_ID'',
            ''GOOGLE_SA_PRIVATE_KEY'', ''GOOGLE_SA_CLIENT_EMAIL'', ''GOOGLE_SA_CLIENT_ID''] \<longrightarrow>
         buildCredentialsFromEnv e' = buildCredentialsFromEnv e) \<and>
   (cached s = None \<longrightarrow>
      snd (getSheetsClient \<lparr>env = e\<rparr> s) =
        s\<lparr>cached := Some (fst (getSheetsClient \<lparr>env = e\<rparr> s)),
          trace := trace s @ [ClientConstructed (fst (getSheetsClient \<lparr>env = e\<rparr> s))]\<rparr>)"
proof -
  have iff: "(buildCredentialsFromEnv e \<noteq> None) =
     list_all (\<lambda>key. \<exists>v. e key = Some v \<and> v \<noteq> [])
       [''GOOGLE_SA_TYPE'', ''GOOGLE_SA_PROJECT_ID'', ''GOOGLE_SA_PRIVATE_KEY_ID'',
        ''GOOGLE_SA_PRIVATE_KEY'', ''GOOGLE_SA_CLIENT_EMAIL'', ''GOOGLE_SA_CLIENT_ID'']"
    by (simp add: buildCredentialsFromEnv_def requiredKeys_def env_truthy_iff Let_def)
  have filled: "type c \<noteq> [] \<and> project_id c \<noteq> [] \<and> private_key_id c \<noteq> [] \<and>
      private_key c \<noteq> [] \<and> client_email c \<noteq> [] \<and> client_id c \<noteq> []"
    if "buildCredentialsFromEnv e = Some c" for c
    using that
    by (auto simp: buildCredentialsFromEnv_def requiredKeys_def env_truthy_iff Let_def
        env_get_Some replace_backslash_n_nonempty split: if_splits)
  have populated: "\<forall>c. buildCredentialsFromEnv e = Some c \<longrightarrow>
      e ''GOOGLE_SA_TYPE'' = Some (type c) \<and>
      e ''GOOGLE_SA_PROJECT_ID'' = Some (project_id c) \<and>
      e ''GOOGLE_SA_PRIVATE_KEY_ID'' = Some (private_key_id c) \<and>
      (\<exists>raw. e ''GOOGLE_SA_PRIVATE_KEY'' = Some raw \<and>
             private_key c = replace_backslash_n raw) \<and>
      e ''GOOGLE_SA_CLIENT_EMAIL'' = Some (client_email c) \<and>
      e ''GOOGLE_SA_CLIENT_ID'' = Some (client_id c) \<and>
      type c \<noteq> [] \<and> project_id c \<noteq> [] \<and> private_key_id c \<noteq> [] \<and>
      private_key c \<noteq> [] \<and> client_email c \<noteq> [] \<and> client_id c \<noteq> []"
  proof (intro allI impI)
    fix c
    assume c: "buildCredentialsFromEnv e = Some c"
    from buildCredentialsFromEnv_fields [OF c] filled [OF c]
    show "e ''GOOGLE_SA_TYPE'' = Some (type c) \<and>
      e ''GOOGLE_SA_PROJECT_ID'' = Some (project_id c) \<and>
      e ''GOOGLE_SA_PRIVATE_KEY_ID'' = Some (private_key_id c) \<and>
      (\<exists>raw. e ''GOOGLE_SA_PRIVATE_KEY'' = Some raw \<and>
             private_key c = replace_backslash_n raw) \<and>
      e ''GOOGLE_SA_CLIENT_EMAIL'' = Some (client_email c) \<and>
      e ''GOOGLE_SA_CLIENT_ID'' = Some (client_id c) \<and>
      type c \<noteq> [] \<and> project_id c \<noteq> [] \<and> private_key_id c \<noteq> [] \<and>
      private_key c \<noteq> [] \<and> client_email c \<noteq> [] \<and> client_id c \<noteq> []"
      by (intro conjI) (assumption | erule conjunct1 | erule conjunct2 | blast)+
  qed
  have reads: "\<forall>e'. list_all (\<lambda>key. e' key = e key)
           [''GOOGLE_SA_TYPE'', ''GOOGLE_SA_PROJECT_ID'', ''GOOGLE_SA_PRIVATE_KEY_ID'',
            ''GOOGLE_SA_PRIVATE_KEY'', ''GOOGLE_SA_CLIENT_EMAIL'', ''GOOGLE_SA_CLIENT_ID''] \<longrightarrow>
         buildCredentialsFromEnv e' = buildCredentialsFromEnv e"
  proof (intro allI impI)
    fix e'
    assume "list_all (\<lambda>key. e' key = e key)
           [''GOOGLE_SA_TYPE'', ''GOOGLE_SA_PROJECT_ID'', ''GOOGLE_SA_PRIVATE_KEY_ID'',
            ''GOOGLE_SA_PRIVATE_KEY'', ''GOOGLE_SA_CLIENT_EMAIL'', ''GOOGLE_SA_CLIENT_ID'']"
    then have "list_all (\<lambda>key. e' key = e key) requiredKeys"
      by (simp only: requiredKeys_def)
    then show "buildCredentialsFromEnv e' = buildCredentialsFromEnv e"
      by (rule buildCredentialsFromEnv_reads_six)
  qed
  have quiet: "cached s = None \<longrightarrow>
      snd (getSheetsClient \<lparr>env = e\<rparr> s) =
        s\<lparr>cached := Some (fst (getSheetsClient \<lparr>env = e\<rparr> s)),
          trace := trace s @ [ClientConstructed (fst (getSheetsClient \<lparr>env = e\<rparr> s))]\<rparr>"
    using getSheetsClient_first [of s "\<lparr>env = e\<rparr>"] by (rule impI)
  show ?thesis
    by (rule conjI [OF iff conjI [OF populated conjI [OF reads quiet]]])
qed

theorem credentials_iff_all_six_witness:
  "buildCredentialsFromEnv scenario_env =
     Some \<lparr>type = ''service_account'', project_id = ''storynest'', private_key_id = ''k1'',
           private_key = ''BEGIN'' @ [CHR 0x0A] @ ''abc'' @ [CHR 0x0A] @ ''END'',
           client_email = ''sa@storynest.example'', client_id = ''42''\<rparr> \<and>
   buildCredentialsFromEnv (scenario_env(''GOOGLE_SHEET_ID'' := None, ''PORT'' \<mapsto> ''3000'')) =
     buildCredentialsFromEnv scenario_env \<and>
   buildCredentialsFromEnv (scenario_env(''GOOGLE_SA_CLIENT_ID'' := None)) = None \<and>
   buildCredentialsFromEnv (scenario_env(''GOOGLE_SA_PRIVATE_KEY'' \<mapsto> [])) = None \<and>
   buildCredentialsFromEnv (\<lambda>key. None) = None \<and>
   trace (snd (getSheetsClient \<lparr>env = scenario_env\<rparr> initial_state)) =
     [ClientConstructed (fst (getSheetsClient \<lparr>env = scenario_env\<rparr> initial_state))]"
proof -
  have some: "buildCredentialsFromEnv scenario_env \<noteq> None"
    using credentials_iff_all_six [of scenario_env, THEN conjunct1]
    by (simp add: scenario_env_def)
  then obtain c where c: "buildCredentialsFromEnv scenario_env = Some c"
    by blast
  from credentials_iff_all_six [of scenario_env, THEN conjunct2, THEN conjunct1, rule_format, OF c]
  have "c = \<lparr>type = ''service_account'', project_id = ''storynest'', private_key_id = ''k1'',
           private_key = ''BEGIN'' @ [CHR 0x0A] @ ''abc'' @ [CHR 0x0A] @ ''END'',
           client_email = ''sa@storynest.example'', client_id = ''42''\<rparr>"
    by (cases c) (auto simp: scenario_env_def)
  with c have built: "buildCredentialsFromEnv scenario_env =
     Some \<lparr>type = ''service_account'', project_id = ''storynest'', private_key_id = ''k1'',
           private_key = ''BEGIN'' @ [CHR 0x0A] @ ''abc'' @ [CHR 0x0A] @ ''END'',
           client_email = ''sa@storynest.example'', client_id = ''42''\<rparr>"
    by simp
  have same: "buildCredentialsFromEnv
      (scenario_env(''GOOGLE_SHEET_ID'' := None, ''PORT'' \<mapsto> ''3000'')) =
     buildCredentialsFromEnv scenario_env"
    using credentials_iff_all_six [of scenario_env, THEN conjunct2, THEN conjunct2,
        THEN conjunct1, rule_format,
        of "scenario_env(''GOOGLE_SHEET_ID'' := None, ''PORT'' \<mapsto> ''3000'')"]
    by simp
  have none1: "buildCredentialsFromEnv (scenario_env(''GOOGLE_SA_CLIENT_ID'' := None)) = None"
    using credentials_iff_all_six [of "scenario_env(''GOOGLE_SA_CLIENT_ID'' := None)",
        THEN conjunct1]
    by simp
  have none2: "buildCredentialsFromEnv (scenario_env(''GOOGLE_SA_PRIVATE_KEY'' \<mapsto> [])) = None"
    using credentials_iff_all_six [of "scenario_env(''GOOGLE_SA_PRIVATE_KEY'' \<mapsto> [])",
        THEN conjunct1]
    by simp
  have none3: "buildCredentialsFromEnv (\<lambda>key. None) = None"
    using credentials_iff_all_six [of "\<lambda>key. None", THEN conjunct1]
    by simp
  have quiet: "trace (snd (getSheetsClient \<lparr>env = scenario_env\<rparr> initial_state)) =
     [ClientConstructed (fst (getSheetsClient \<lparr>env = scenario_env\<rparr> initial_state))]"
    using credentials_iff_all_six [of scenario_env initial_state, THEN conjunct2, THEN conjunct2,
        THEN conjunct2]
    by (simp add: initial_state_def)
  from built same none1 none2 none3 quiet show ?thesis by blast
qed

text \<open>
  Claim C9. In a returned descriptor, \<^verbatim>\<open>private_key\<close> is the value of
  \<^verbatim>\<open>GOOGLE_SA_PRIVATE_KEY\<close> with every backslash followed by \<^verbatim>\<open>n\<close> replaced by a line
  feed: an occurrence in the raw value becomes one line feed between the replaced parts,
  no occurrence is left in the result, and a raw value without one is passed as it is. The
  other five fields are the values of their variables, unchanged.
\<close>

theorem private_key_newlines:
  assumes "buildCredentialsFromEnv e = Some c"
  shows "(\<exists>raw. e ''GOOGLE_SA_PRIVATE_KEY'' = Some raw \<and>
            private_key c = replace_backslash_n raw \<and>
            (\<forall>xs ys. raw = xs @ CHR 0x5C # CHR ''n'' # ys \<longrightarrow>
               private_key c = replace_backslash_n xs @ CHR 0x0A # replace_backslash_n ys) \<and>
            (\<not> has_backslash_n raw \<longrightarrow> private_key c = raw)) \<and>
         \<not> has_backslash_n (private_key c) \<and>
         e ''GOOGLE_SA_TYPE'' = Some (type c) \<and>
         e ''GOOGLE_SA_PROJECT_ID'' = Some (project_id c) \<and>
         e ''GOOGLE_SA_PRIVATE_KEY_ID'' = Some (private_key_id c) \<and>
         e ''GOOGLE_SA_CLIENT_EMAIL'' = Some (client_email c) \<and>
         e ''GOOGLE_SA_CLIENT_ID'' = Some (client_id c)"
proof -
  from assms have all: "list_all (env_truthy e) requiredKeys"
    by (simp add: buildCredentialsFromEnv_def Let_def split: if_splits)
  then obtain raw where raw: "e ''GOOGLE_SA_PRIVATE_KEY'' = Some raw"
    by (auto simp: requiredKeys_def env_truthy_iff)
  from assms all have key: "private_key c = replace_backslash_n raw"
    by (auto simp: buildCredentialsFromEnv_def Let_def env_get_def raw)
  have others: "e ''GOOGLE_SA_TYPE'' = Some (type c)"
    "e ''GOOGLE_SA_PROJECT_ID'' = Some (project_id c)"
    "e ''GOOGLE_SA_PRIVATE_KEY_ID'' = Some (private_key_id c)"
    "e ''GOOGLE_SA_CLIENT_EMAIL'' = Some (client_email c)"
    "e ''GOOGLE_SA_CLIENT_ID'' = Some (client_id c)"
    using assms all
    by (auto simp: buildCredentialsFromEnv_def Let_def requiredKeys_def env_truthy_iff
        env_get_def)
  have clean: "\<not> has_backslash_n (private_key c)"
    unfolding key by (rule replace_backslash_n_clean)
  have "\<forall>xs ys. raw = xs @ CHR 0x5C # CHR ''n'' # ys \<longrightarrow>
      private_key c = replace_backslash_n xs @ CHR 0x0A # replace_backslash_n ys"
    unfolding key by (simp add: replace_backslash_n_match)
  moreover have "\<not> has_backslash_n raw \<longrightarrow> private_key c = raw"
    unfolding key by (simp add: replace_backslash_n_unchanged)
  ultimately show ?thesis
    using raw key clean others by blast
qed

theorem private_key_newlines_witness:
  "buildCredentialsFromEnv scenario_env =
     Some \<lparr>type = ''service_account'', project_id = ''storynest'', private_key_id = ''k1'',
           private_key = ''BEGIN'' @ [CHR 0x0A] @ ''abc'' @ [CHR 0x0A] @ ''END'',
           client_email = ''sa@storynest.example'', client_id = ''42''\<rparr> \<and>
   \<not> has_backslash_n (''BEGIN'' @ [CHR 0x0A] @ ''abc'' @ [CHR 0x0A] @ ''END'')"
proof -
  have built: "buildCredentialsFromEnv scenario_env =
     Some \<lparr>type = ''service_account'', project_id = ''storynest'', private_key_id = ''k1'',
           private_key = ''BEGIN'' @ [CHR 0x0A] @ ''abc'' @ [CHR 0x0A] @ ''END'',
           client_email = ''sa@storynest.example'', client_id = ''42''\<rparr>"
    by (simp add: buildCredentialsFromEnv_def requiredKeys_def env_truthy_def env_get_def
        scenario_env_def)
  from private_key_newlines [OF built] built show ?thesis
    by simp
qed

section \<open>Properties of the process as a whole\<close>

lemma initial_state_invariant: "client_invariant initial_state"
  by (simp add: client_invariant_def initial_state_def)

lemma initial_state_sheet_id: "sheet_id_invariant p initial_state"
  by (simp add: sheet_id_invariant_def initial_state_def)

lemma client_invariant_once:
  assumes "client_invariant s"
  shows "length (constructions (trace s)) \<le> 1 \<and>
         list_all (\<lambda>cr. constructions (trace s) = [fst cr] \<and> cached s = Some (fst cr))
           (appends (trace s))"
proof (cases "cached s")
  case None
  with assms show ?thesis by (simp add: client_invariant_def)
next
  case (Some c)
  with assms have one: "constructions (trace s) = [c]"
    and all: "list_all (\<lambda>cr. fst cr = c) (appends (trace s))"
    by (simp_all add: client_invariant_def)
  from all have "list_all (\<lambda>cr. constructions (trace s) = [fst cr] \<and> cached s = Some (fst cr))
           (appends (trace s))"
    unfolding one Some by (simp add: list_all_iff)
  with one show ?thesis by simp
qed

lemma appendRow_constructions:
  "cached s = Some c \<Longrightarrow>
     constructions (trace (snd (appendRow p rt io rng columns payload s))) =
     constructions (trace s)"
  using appendRow_state [of p rt io rng columns payload s]
  by (auto simp: getSheetsClient_cached constructions_append)

lemma post_responses_constructions:
  "cached s = Some c \<Longrightarrow>
     constructions (trace (snd (post_responses p rt io b s))) = constructions (trace s)"
  using post_responses_state [of p rt io b s] by (auto simp: appendRow_constructions)

lemma serve_constructions:
  "cached s = Some c \<Longrightarrow>
     constructions (trace (snd (serve p rt reqs s))) = constructions (trace s)"
proof (induction reqs arbitrary: s)
  case Nil
  then show ?case by simp
next
  case (Cons r reqs)
  obtain io b where r: "r = (io, b)" by (cases r)
  let ?s1 = "snd (post_responses p rt io b s)"
  have "cached ?s1 = Some c"
    using Cons.prems by (rule post_responses_cached)
  then have "constructions (trace (snd (serve p rt reqs ?s1))) = constructions (trace ?s1)"
    by (rule Cons.IH)
  also have "\<dots> = constructions (trace s)"
    using Cons.prems by (rule post_responses_constructions)
  finally show ?case
    by (simp only: r serve_Cons_state)
qed

lemma scenario_first_call:
  "getSheetsClient scenario_process initial_state =
     (scenario_client,
      \<lparr>cached = Some scenario_client, trace = [ClientConstructed scenario_client]\<rparr>)"
  by (simp add: getSheetsClient_def buildCredentialsFromEnv_def requiredKeys_def env_truthy_def
      scenario_process_def initial_state_def scenario_client_def Let_def)

text \<open>
  Claim C6. The client is constructed at most once. A call of \<^verbatim>\<open>getSheetsClient\<close> right
  after another returns the same client and leaves the state as it is. However many
  requests the process has served since it started, its trace holds at most one
  construction, and every append was issued with that one client, which is the cached one.
  Once a client is cached, serving requests never replaces it, never constructs another,
  and the next call of the factory returns it.
\<close>

theorem client_constructed_once:
  "getSheetsClient p (snd (getSheetsClient p s)) = getSheetsClient p s \<and>
   length (constructions (trace (snd (serve p rt reqs initial_state)))) \<le> 1 \<and>
   list_all (\<lambda>cr. constructions (trace (snd (serve p rt reqs initial_state))) = [fst cr] \<and>
                   cached (snd (serve p rt reqs initial_state)) = Some (fst cr))
     (appends (trace (snd (serve p rt reqs initial_state)))) \<and>
   (cached s = Some c \<longrightarrow>
      cached (snd (serve p rt reqs s)) = Some c \<and>
      getSheetsClient p (snd (serve p rt reqs s)) = (c, snd (serve p rt reqs s)) \<and>
      constructions (trace (snd (serve p rt reqs s))) = constructions (trace s))"
proof -
  have again: "getSheetsClient p (snd (getSheetsClient p s)) = getSheetsClient p s"
    using getSheetsClient_cached [OF getSheetsClient_caches, of p p s] by simp
  have "client_invariant (snd (serve p rt reqs initial_state))"
    using initial_state_invariant by (rule serve_invariant)
  then have once: "length (constructions (trace (snd (serve p rt reqs initial_state)))) \<le> 1 \<and>
    list_all (\<lambda>cr. constructions (trace (snd (serve p rt reqs initial_state))) = [fst cr] \<and>
                   cached (snd (serve p rt reqs initial_state)) = Some (fst cr))
     (appends (trace (snd (serve p rt reqs initial_state))))"
    by (rule client_invariant_once)
  have kept: "cached s = Some c \<longrightarrow>
      cached (snd (serve p rt reqs s)) = Some c \<and>
      getSheetsClient p (snd (serve p rt reqs s)) = (c, snd (serve p rt reqs s)) \<and>
      constructions (trace (snd (serve p rt reqs s))) = constructions (trace s)"
    by (simp add: serve_cached serve_constructions getSheetsClient_cached)
  from again once kept show ?thesis by blast
qed

theorem client_constructed_once_witness:
  "getSheetsClient scenario_process
      \<lparr>cached = Some scenario_client, trace = [ClientConstructed scenario_client]\<rparr> =
     (scenario_client,
      \<lparr>cached = Some scenario_client, trace = [ClientConstructed scenario_client]\<rparr>) \<and>
   cached (snd (serve scenario_process scenario_runtime
      [(scenario_io None, JObj [(''nickname'', JStr ''Amy''), (''story'', JStr ''Hello'')]),
       (scenario_io (Some (Error ''quota exceeded'')),
        JObj [(''nickname'', JStr ''Bo''), (''story'', JStr ''Hi'')])]
      \<lparr>cached = Some scenario_client, trace = [ClientConstructed scenario_client]\<rparr>)) =
     Some scenario_client \<and>
   constructions (trace (snd (serve scenario_process scenario_runtime
      [(scenario_io None, JObj [(''nickname'', JStr ''Amy''), (''story'', JStr ''Hello'')]),
       (scenario_io (Some (Error ''quota exceeded'')),
        JObj [(''nickname'', JStr ''Bo''), (''story'', JStr ''Hi'')])]
      \<lparr>cached = Some scenario_client, trace = [ClientConstructed scenario_client]\<rparr>))) =
     [scenario_client] \<and>
   length (constructions (trace (snd (serve scenario_process scenario_runtime
      [(scenario_io None, JObj [(''nickname'', JStr ''Amy''), (''story'', JStr ''Hello'')]),
       (scenario_io (Some (Error ''quota exceeded'')),
        JObj [(''nickname'', JStr ''Bo''), (''story'', JStr ''Hi'')])]
      initial_state)))) \<le> 1"
  using client_constructed_once [where p = scenario_process and rt = scenario_runtime
      and s = initial_state and c = scenario_client
      and reqs = "[(scenario_io None, JObj [(''nickname'', JStr ''Amy''), (''story'', JStr ''Hello'')]),
       (scenario_io (Some (Error ''quota exceeded'')),
        JObj [(''nickname'', JStr ''Bo''), (''story'', JStr ''Hi'')])]"]
    client_constructed_once [where p = scenario_process and rt = scenario_runtime
      and s = "\<lparr>cached = Some scenario_client, trace = [ClientConstructed scenario_client]\<rparr>"
      and c = scenario_client
      and reqs = "[(scenario_io None, JObj [(''nickname'', JStr ''Amy''), (''story'', JStr ''Hello'')]),
       (scenario_io (Some (Error ''quota exceeded'')),
        JObj [(''nickname'', JStr ''Bo''), (''story'', JStr ''Hi'')])]"]
  by (simp add: getSheetsClient_def)

lemma placeholder_sheet_id_bytes:
  "placeholder_sheet_id =
     [CHR 0xE8, CHR 0xAB, CHR 0x8B, CHR 0xE5, CHR 0xA1, CHR 0xAB, CHR 0xE5, CHR 0x85, CHR 0xA5,
      CHR 0xE4, CHR 0xBD, CHR 0xA0, CHR 0xE7, CHR 0x9A, CHR 0x84,
      CHR ''S'', CHR ''h'', CHR ''e'', CHR ''e'', CHR ''t'', CHR ''I'', CHR ''D'']"
  by (simp add: placeholder_sheet_id_def)

lemma placeholder_sheet_id_code_points:
  "utf8_code_points placeholder_sheet_id =
     [0x8ACB, 0x586B, 0x5165, 0x4F60, 0x7684, 0x53, 0x68, 0x65, 0x65, 0x74, 0x49, 0x44]"
  by (simp add: placeholder_sheet_id_def)

lemma SHEET_ID_cases:
  "SHEET_ID p =
     (case env p ''GOOGLE_SHEET_ID'' of
        None \<Rightarrow> placeholder_sheet_id
      | Some v \<Rightarrow> if v = [] then placeholder_sheet_id else v)"
  by (simp add: SHEET_ID_def env_or_def)

lemma post_responses_valid:
  assumes "get_prop rt b ''nickname'' = Inr nickname" and "get_prop rt b ''story'' = Inr story"
    and "truthy nickname" and "truthy story"
  shows "appends (trace (snd (post_responses p rt io b s))) =
           appends (trace s) @
             [(fst (getSheetsClient p s),
               \<lparr>spreadsheetId = SHEET_ID p, range = RESPONSE_SHEET_RANGE p,
                 valueInputOption = ''USER_ENTERED'', insertDataOption = ''INSERT_ROWS'',
                 values = [[JStr (number_toString (date_now io)),
                            JStr (toLocaleString rt (new_date io)), nickname, story]]\<rparr>)]"
    and "status (fst (post_responses p rt io b s)) =
           (case remote io (fst (getSheetsClient p s))
                   \<lparr>spreadsheetId = SHEET_ID p, range = RESPONSE_SHEET_RANGE p,
                     valueInputOption = ''USER_ENTERED'', insertDataOption = ''INSERT_ROWS'',
                     values = [[JStr (number_toString (date_now io)),
                                JStr (toLocaleString rt (new_date io)), nickname, story]]\<rparr> of
              None \<Rightarrow> 201
            | Some e \<Rightarrow> 500)"
  using try_block_valid [OF assms, of p io s]
  by (simp_all add: post_responses_def Let_def appends_append getSheetsClient_appends
      split: option.splits)

text \<open>
  Claim C10. \<^verbatim>\<open>SHEET_ID\<close> is the value of \<^verbatim>\<open>GOOGLE_SHEET_ID\<close> when that is set and not
  empty, and the placeholder text of the source otherwise; reading it cannot fail. Every
  append the process issues carries \<^verbatim>\<open>SHEET_ID\<close> as its \<^verbatim>\<open>spreadsheetId\<close>. With the
  variable missing, a request that passes the validation is sent to the remote API with
  the placeholder, and the answer is HTTP 500 exactly when that remote call throws (and
  HTTP 201 when it does not).
\<close>

theorem sheet_id_or_placeholder:
  "placeholder_sheet_id =
     [CHR 0xE8, CHR 0xAB, CHR 0x8B, CHR 0xE5, CHR 0xA1, CHR 0xAB, CHR 0xE5, CHR 0x85, CHR 0xA5,
      CHR 0xE4, CHR 0xBD, CHR 0xA0, CHR 0xE7, CHR 0x9A, CHR 0x84,
      CHR ''S'', CHR ''h'', CHR ''e'', CHR ''e'', CHR ''t'', CHR ''I'', CHR ''D''] \<and>
   utf8_code_points placeholder_sheet_id =
     [0x8ACB, 0x586B, 0x5165, 0x4F60, 0x7684, 0x53, 0x68, 0x65, 0x65, 0x74, 0x49, 0x44] \<and>
   SHEET_ID p =
     (case env p ''GOOGLE_SHEET_ID'' of
        None \<Rightarrow> placeholder_sheet_id
      | Some v \<Rightarrow> if v = [] then placeholder_sheet_id else v) \<and>
   list_all (\<lambda>cr. spreadsheetId (snd cr) = SHEET_ID p)
     (appends (trace (snd (serve p rt reqs initial_state)))) \<and>
   (\<not> env_truthy (env p) ''GOOGLE_SHEET_ID'' \<and>
    get_prop rt b ''nickname'' = Inr nickname \<and> get_prop rt b ''story'' = Inr story \<and>
    truthy nickname \<and> truthy story \<longrightarrow>
      appends (trace (snd (post_responses p rt io b s))) =
        appends (trace s) @
          [(fst (getSheetsClient p s),
            \<lparr>spreadsheetId = placeholder_sheet_id, range = RESPONSE_SHEET_RANGE p,
              valueInputOption = ''USER_ENTERED'', insertDataOption = ''INSERT_ROWS'',
              values = [[JStr (number_toString (date_now io)),
                         JStr (toLocaleString rt (new_date io)), nickname, story]]\<rparr>)] \<and>
      status (fst (post_responses p rt io b s)) =
        (case remote io (fst (getSheetsClient p s))
                \<lparr>spreadsheetId = placeholder_sheet_id, range = RESPONSE_SHEET_RANGE p,
                  valueInputOption = ''USER_ENTERED'', insertDataOption = ''INSERT_ROWS'',
                  values = [[JStr (number_toString (date_now io)),
                             JStr (toLocaleString rt (new_date io)), nickname, story]]\<rparr> of
           None \<Rightarrow> 201
         | Some e \<Rightarrow> 500))"
proof -
  have "sheet_id_invariant p (snd (serve p rt reqs initial_state))"
    using initial_state_sheet_id by (rule serve_sheet_id)
  then have served: "list_all (\<lambda>cr. spreadsheetId (snd cr) = SHEET_ID p)
     (appends (trace (snd (serve p rt reqs initial_state))))"
    by (simp add: sheet_id_invariant_def)
  have unset: "\<not> env_truthy (env p) ''GOOGLE_SHEET_ID'' \<Longrightarrow> SHEET_ID p = placeholder_sheet_id"
    by (simp add: SHEET_ID_def env_or_def env_truthy_def split: option.splits)
  have rest: "SHEET_ID p =
     (case env p ''GOOGLE_SHEET_ID'' of
        None \<Rightarrow> placeholder_sheet_id
      | Some v \<Rightarrow> if v = [] then placeholder_sheet_id else v) \<and>
   list_all (\<lambda>cr. spreadsheetId (snd cr) = SHEET_ID p)
     (appends (trace (snd (serve p rt reqs initial_state)))) \<and>
   (\<not> env_truthy (env p) ''GOOGLE_SHEET_ID'' \<and>
    get_prop rt b ''nickname'' = Inr nickname \<and> get_prop rt b ''story'' = Inr story \<and>
    truthy nickname \<and> truthy story \<longrightarrow>
      appends (trace (snd (post_responses p rt io b s))) =
        appends (trace s) @
          [(fst (getSheetsClient p s),
            \<lparr>spreadsheetId = placeholder_sheet_id, range = RESPONSE_SHEET_RANGE p,
              valueInputOption = ''USER_ENTERED'', insertDataOption = ''INSERT_ROWS'',
              values = [[JStr (number_toString (date_now io)),
                         JStr (toLocaleString rt (new_date io)), nickname, story]]\<rparr>)] \<and>
      status (fst (post_responses p rt io b s)) =
        (case remote io (fst (getSheetsClient p s))
                \<lparr>spreadsheetId = placeholder_sheet_id, range = RESPONSE_SHEET_RANGE p,
                  valueInputOption = ''USER_ENTERED'', insertDataOption = ''INSERT_ROWS'',
                  values = [[JStr (number_toString (date_now io)),
                             JStr (toLocaleString rt (new_date io)), nickname, story]]\<rparr> of
           None \<Rightarrow> 201
         | Some e \<Rightarrow> 500))"
    using served SHEET_ID_cases [of p] unset
      post_responses_valid [of rt b nickname story p io s]
    by (simp split: option.splits)
  from placeholder_sheet_id_bytes placeholder_sheet_id_code_points rest
  show ?thesis by blast
qed

theorem sheet_id_or_placeholder_witness:
  "SHEET_ID scenario_process =
     [CHR 0xE8, CHR 0xAB, CHR 0x8B, CHR 0xE5, CHR 0xA1, CHR 0xAB, CHR 0xE5, CHR 0x85, CHR 0xA5,
      CHR 0xE4, CHR 0xBD, CHR 0xA0, CHR 0xE7, CHR 0x9A, CHR 0x84,
      CHR ''S'', CHR ''h'', CHR ''e'', CHR ''e'', CHR ''t'', CHR ''I'', CHR ''D''] \<and>
   SHEET_ID \<lparr>env = scenario_env(''GOOGLE_SHEET_ID'' \<mapsto> [])\<rparr> =
     [CHR 0xE8, CHR 0xAB, CHR 0x8B, CHR 0xE5, CHR 0xA1, CHR 0xAB, CHR 0xE5, CHR 0x85, CHR 0xA5,
      CHR 0xE4, CHR 0xBD, CHR 0xA0, CHR 0xE7, CHR 0x9A, CHR 0x84,
      CHR ''S'', CHR ''h'', CHR ''e'', CHR ''e'', CHR ''t'', CHR ''I'', CHR ''D''] \<and>
   SHEET_ID \<lparr>env = scenario_env\<rparr> = ''sheet-1'' \<and>
   map (\<lambda>cr. spreadsheetId (snd cr))
     (appends (trace (snd (post_responses scenario_process scenario_runtime
        (scenario_io (Some (Error ''Requested entity was not found.'')))
        (JObj [(''nickname'', JStr ''Amy''), (''story'', JStr ''Hello'')]) initial_state)))) =
     [[CHR 0xE8, CHR 0xAB, CHR 0x8B, CHR 0xE5, CHR 0xA1, CHR 0xAB, CHR 0xE5, CHR 0x85, CHR 0xA5,
      CHR 0xE4, CHR 0xBD, CHR 0xA0, CHR 0xE7, CHR 0x9A, CHR 0x84,
      CHR ''S'', CHR ''h'', CHR ''e'', CHR ''e'', CHR ''t'', CHR ''I'', CHR ''D'']] \<and>
   status (fst (post_responses scenario_process scenario_runtime
        (scenario_io (Some (Error ''Requested entity was not found.'')))
        (JObj [(''nickname'', JStr ''Amy''), (''story'', JStr ''Hello'')]) initial_state)) = 500"
proof -
  note wording = sheet_id_or_placeholder [THEN conjunct1]
  have set: "SHEET_ID \<lparr>env = scenario_env\<rparr> = ''sheet-1''"
    using sheet_id_or_placeholder [where p = "\<lparr>env = scenario_env\<rparr>",
        THEN conjunct2, THEN conjunct2, THEN conjunct1]
    by (simp add: scenario_env_def)
  have empty: "SHEET_ID \<lparr>env = scenario_env(''GOOGLE_SHEET_ID'' \<mapsto> [])\<rparr> = placeholder_sheet_id"
    using sheet_id_or_placeholder [where p = "\<lparr>env = scenario_env(''GOOGLE_SHEET_ID'' \<mapsto> [])\<rparr>",
        THEN conjunct2, THEN conjunct2, THEN conjunct1]
    by simp
  have unset: "SHEET_ID scenario_process = placeholder_sheet_id"
    using sheet_id_or_placeholder [where p = scenario_process,
        THEN conjunct2, THEN conjunct2, THEN conjunct1]
    by (simp add: scenario_process_def)
  have missing: "\<not> env_truthy (env scenario_process) ''GOOGLE_SHEET_ID''"
    by (simp add: scenario_process_def env_truthy_def)
  have throws: "remote (scenario_io (Some (Error ''Requested entity was not found.''))) c r =
      Some (Error ''Requested entity was not found.'')" for c r
    by (simp add: scenario_io_def)
  have "appends (trace initial_state) = []"
    by (simp add: initial_state_def)
  with missing throws
    sheet_id_or_placeholder [where p = scenario_process and rt = scenario_runtime
      and s = initial_state
      and io = "scenario_io (Some (Error ''Requested entity was not found.''))"
      and b = "JObj [(''nickname'', JStr ''Amy''), (''story'', JStr ''Hello'')]"
      and nickname = "JStr ''Amy''" and story = "JStr ''Hello''",
      THEN conjunct2, THEN conjunct2, THEN conjunct2, THEN conjunct2]
  have sent: "map (\<lambda>cr. spreadsheetId (snd cr))
     (appends (trace (snd (post_responses scenario_process scenario_runtime
        (scenario_io (Some (Error ''Requested entity was not found.'')))
        (JObj [(''nickname'', JStr ''Amy''), (''story'', JStr ''Hello'')]) initial_state)))) =
     [placeholder_sheet_id] \<and>
   status (fst (post_responses scenario_process scenario_runtime
        (scenario_io (Some (Error ''Requested entity was not found.'')))
        (JObj [(''nickname'', JStr ''Amy''), (''story'', JStr ''Hello'')]) initial_state)) = 500"
    by simp
  from set empty unset sent show ?thesis
    unfolding wording by simp
qed

end
